theory Spec2Isabelle
  imports Main "HOL-Library.Log_Nat"
begin

section \<open>JavaScript numbers\<close>

text \<open>
  The scripts format numbers with \<^verbatim>\<open>toFixed\<close>, compare them with \<^verbatim>\<open>>= 0\<close> and, in the chart
  tooltip, add, divide and multiply them. A number is modelled by the exact value of the
  IEEE double it holds (a rational), or one of the three special values. The sign of zero
  is not kept: none of the operations the scripts apply can tell \<^verbatim>\<open>-0\<close> from \<^verbatim>\<open>0\<close>
  (\<^verbatim>\<open>toFixed\<close> prints both alike, \<^verbatim>\<open>-0 >= 0\<close> holds, and the only divisor is a sum that
  starts from \<^verbatim>\<open>0\<close>, which is never \<^verbatim>\<open>-0\<close>).
\<close>

datatype number = Finite rat | PosInf | NegInf | NaN

definition pow2 :: "int \<Rightarrow> rat" where
  "pow2 e = (if 0 \<le> e then 2 ^ nat e else 1 / 2 ^ nat (- e))"

definition ilog2 :: "rat \<Rightarrow> int" where
  \<comment> \<open>for \<open>0 < a\<close>: the exponent \<open>e\<close> with \<open>2 ^ e \<le> a < 2 ^ (e + 1)\<close>\<close>
  "ilog2 a = (let (n, d) = quotient_of a;
                  e = bitlen n - bitlen d
              in if pow2 e \<le> a then e else e - 1)"

definition round_half_even :: "rat \<Rightarrow> int" where
  "round_half_even q = (let n = \<lfloor>q\<rfloor>; r = q - of_int n
     in if r < 1 / 2 then n else if 1 / 2 < r then n + 1 else if even n then n else n + 1)"

definition to_double :: "rat \<Rightarrow> number" where
  \<comment> \<open>rounding to the nearest double, ties to even: 53 significant bits, exponents
      from -1022 (below it the spacing stays \<open>2 ^ -1074\<close>), overflow to infinity\<close>
  "to_double q = (if q = 0 then Finite 0 else
     (let a = \<bar>q\<bar>; e = max (ilog2 a) (- 1022); u = pow2 (e - 52);
          r = of_int (round_half_even (a / u)) * u
      in if pow2 1024 \<le> r then (if q < 0 then NegInf else PosInf)
         else Finite (if q < 0 then - r else r)))"

definition js_ge :: "number \<Rightarrow> number \<Rightarrow> bool" where
  \<comment> \<open>\<^verbatim>\<open>x >= y\<close>: false as soon as one side is NaN\<close>
  "js_ge x y = (case (x, y) of
      (NaN, _) \<Rightarrow> False
    | (_, NaN) \<Rightarrow> False
    | (PosInf, _) \<Rightarrow> True
    | (_, NegInf) \<Rightarrow> True
    | (NegInf, _) \<Rightarrow> False
    | (_, PosInf) \<Rightarrow> False
    | (Finite a, Finite b) \<Rightarrow> b \<le> a)"

definition js_lt :: "number \<Rightarrow> number \<Rightarrow> bool" where
  \<comment> \<open>\<^verbatim>\<open>x < y\<close>\<close>
  "js_lt x y = (case (x, y) of
      (NaN, _) \<Rightarrow> False
    | (_, NaN) \<Rightarrow> False
    | (PosInf, _) \<Rightarrow> False
    | (_, NegInf) \<Rightarrow> False
    | (NegInf, _) \<Rightarrow> True
    | (_, PosInf) \<Rightarrow> True
    | (Finite a, Finite b) \<Rightarrow> a < b)"


definition js_neg :: "number \<Rightarrow> number" where
  "js_neg x = (case x of Finite a \<Rightarrow> Finite (- a) | PosInf \<Rightarrow> NegInf | NegInf \<Rightarrow> PosInf | NaN \<Rightarrow> NaN)"



subsection \<open>Printing\<close>

definition digit :: "int \<Rightarrow> char" where
  "digit d = ''0123456789'' ! nat d"

function dec :: "int \<Rightarrow> string" where
  \<comment> \<open>the decimal digits of \<open>n \<ge> 0\<close>\<close>
  "dec n = (if n < 10 then [digit n] else dec (n div 10) @ [digit (n mod 10)])"
  by pat_completeness auto

termination dec
  by (relation "measure nat") auto

declare dec.simps [simp del]

definition fixed_digits :: "rat \<Rightarrow> nat \<Rightarrow> string" where
  \<comment> \<open>\<^verbatim>\<open>Number.prototype.toFixed\<close>, for \<open>0 \<le> x < 10 ^ 21\<close>: the integer \<open>n\<close> for which
      \<open>n / 10 ^ f\<close> is closest to \<open>x\<close> (the larger of two), printed with \<open>f\<close> digits
      after the point\<close>
  "fixed_digits x f =
     (let m = dec \<lfloor>x * 10 ^ f + 1 / 2\<rfloor>;
          m' = (if length m \<le> f then replicate (f + 1 - length m) (CHR ''0'') @ m else m)
      in if f = 0 then m
         else take (length m' - f) m' @ ''.'' @ drop (length m' - f) m')"

definition shortest :: "rat \<Rightarrow> nat \<Rightarrow> nat \<Rightarrow> (int \<times> nat) option" where
  \<comment> \<open>a \<open>k\<close>-digit integer \<open>s\<close> and a position \<open>n\<close> with \<open>s * 10 ^ (n - k)\<close> read back as the
      double \<open>a\<close>; of two the one closer to \<open>a\<close>\<close>
  "shortest a n k =
     (let p = 10 ^ (n - k); s = \<lfloor>a / p\<rfloor>;
          ok = (\<lambda>c. to_double (of_int c * p) = Finite a)
      in if ok s \<and> (a - of_int s * p \<le> of_int (s + 1) * p - a \<or> \<not> ok (s + 1)) then Some (s, n)
         else if ok (s + 1) then (if s + 1 = 10 ^ k then Some (10 ^ (k - 1), n + 1) else Some (s + 1, n))
         else None)"

definition exp_string :: "rat \<Rightarrow> string" where
  \<comment> \<open>\<^verbatim>\<open>Number::toString\<close> for a double \<open>a \<ge> 10 ^ 21\<close>: the fewest digits that read back
      as \<open>a\<close>, in exponent notation\<close>
  "exp_string a =
     (let n = length (dec \<lfloor>a\<rfloor>)
      in case List.map_filter (shortest a n) [1..<18] of
           [] \<Rightarrow> dec \<lfloor>a\<rfloor>
         | (s, n') # _ \<Rightarrow>
             (let ds = dec s
              in take 1 ds @ (if length ds = 1 then [] else ''.'' @ drop 1 ds)
                 @ ''e+'' @ dec (int n' - 1)))"

definition toFixed :: "number \<Rightarrow> nat \<Rightarrow> string" where
  "toFixed x f = (case x of
      NaN \<Rightarrow> ''NaN''
    | PosInf \<Rightarrow> ''Infinity''
    | NegInf \<Rightarrow> ''-Infinity''
    | Finite q \<Rightarrow>
        (if q < 0 then ''-'' else [])
        @ (if 10 ^ 21 \<le> \<bar>q\<bar>
           then (case to_double \<bar>q\<bar> of Finite a \<Rightarrow> exp_string a | _ \<Rightarrow> ''Infinity'')
           else fixed_digits \<bar>q\<bar> f))"


section \<open>The document\<close>

text \<open>
  The document is a forest of nodes in tree order. An element has a tag, its attributes in
  the order they were set, and its children; \<open>listener\<close> tells whether the click listener of
  \<^verbatim>\<open>dashboard.js\<close> line 1 is registered on it, which is what makes it \<^verbatim>\<open>this\<close> (\<^verbatim>\<open>btn\<close>) in
  the handler. Strings hold the UTF-8 bytes of the text.
\<close>

datatype node =
    Element (tag: string) (attrs: "(string \<times> string) list") (listener: bool) (kids: "node list")
  | Text string

type_synonym document = "node list"

text \<open>A selector of the scripts looks at an element's tag and attributes only.\<close>

type_synonym selector = "string \<Rightarrow> (string \<times> string) list \<Rightarrow> bool"

definition is_space :: "char \<Rightarrow> bool" where
  "is_space c = (c = CHR 0x20 \<or> c = CHR 0x09 \<or> c = CHR 0x0A \<or> c = CHR 0x0C \<or> c = CHR 0x0D)"

fun tokens :: "string \<Rightarrow> string \<Rightarrow> string list" where
  "tokens cur [] = (if cur = [] then [] else [cur])"
| "tokens cur (c # cs) =
     (if is_space c then (if cur = [] then tokens [] cs else cur # tokens [] cs)
      else tokens (cur @ [c]) cs)"

definition classList :: "(string \<times> string) list \<Rightarrow> string list" where
  "classList as = (case map_of as ''class'' of None \<Rightarrow> [] | Some v \<Rightarrow> tokens [] v)"

definition by_class :: "string \<Rightarrow> selector" where
  \<comment> \<open>\<^verbatim>\<open>.c\<close>\<close>
  "by_class c t as = (c \<in> set (classList as))"

definition by_id :: "string \<Rightarrow> selector" where
  \<comment> \<open>what \<^verbatim>\<open>getElementById\<close> looks for\<close>
  "by_id i t as = (map_of as ''id'' = Some i)"

definition main_container :: selector where
  \<comment> \<open>\<^verbatim>\<open>main.container\<close>\<close>
  "main_container t as = (t = ''main'' \<and> by_class ''container'' t as)"

definition portfolio_row :: "string \<Rightarrow> selector" where
  \<comment> \<open>\<^verbatim>\<open>tr[data-portfolio-id="v"]\<close>\<close>
  "portfolio_row v t as = (t = ''tr'' \<and> map_of as ''data-portfolio-id'' = Some v)"

fun set_attr :: "string \<Rightarrow> string \<Rightarrow> (string \<times> string) list \<Rightarrow> (string \<times> string) list" where
  "set_attr k v [] = [(k, v)]"
| "set_attr k v ((k', v') # as) = (if k' = k then (k, v) # as else (k', v') # set_attr k v as)"

definition remove_attr :: "string \<Rightarrow> (string \<times> string) list \<Rightarrow> (string \<times> string) list" where
  "remove_attr k as = filter (\<lambda>kv. fst kv \<noteq> k) as"

subsection \<open>Queries\<close>

fun first_match :: "selector \<Rightarrow> node list \<Rightarrow> node option" where
  \<comment> \<open>\<^verbatim>\<open>querySelector\<close>, \<^verbatim>\<open>getElementById\<close>: the first matching element in tree order\<close>
  "first_match P [] = None"
| "first_match P (Text s # ns) = first_match P ns"
| "first_match P (Element t a l ks # ns) =
     (if P t a then Some (Element t a l ks)
      else case first_match P ks of Some e \<Rightarrow> Some e | None \<Rightarrow> first_match P ns)"

text \<open>
  A place in a forest is the list of child indices that leads to a node, from the root
  down.
\<close>

type_synonym place = "nat list"

fun shift :: "place \<Rightarrow> place" where
  "shift [] = []"
| "shift (i # p) = Suc i # p"

fun first_place :: "selector \<Rightarrow> node list \<Rightarrow> place option" where
  \<comment> \<open>where \<open>first_match\<close> finds its element\<close>
  "first_place P [] = None"
| "first_place P (Text s # ns) = map_option shift (first_place P ns)"
| "first_place P (Element t a l ks # ns) =
     (if P t a then Some [0]
      else case first_place P ks of
             Some p \<Rightarrow> Some (0 # p)
           | None \<Rightarrow> map_option shift (first_place P ns))"

fun count_matches :: "selector \<Rightarrow> node list \<Rightarrow> nat" where
  \<comment> \<open>the length of \<^verbatim>\<open>querySelectorAll\<close>\<close>
  "count_matches P [] = 0"
| "count_matches P (Text s # ns) = count_matches P ns"
| "count_matches P (Element t a l ks # ns) =
     (if P t a then 1 else 0) + count_matches P ks + count_matches P ns"

subsection \<open>Statements\<close>

text \<open>
  A statement either completes or throws; what it changed before it threw stays changed,
  so both outcomes carry the state.
\<close>

datatype js_error = TypeError | SyntaxError | NotFoundError

datatype 'a outcome = Done 'a | Thrown js_error 'a

fun state :: "'a outcome \<Rightarrow> 'a" where
  "state (Done d) = d"
| "state (Thrown e d) = d"

fun sequence :: "('a \<Rightarrow> 'a outcome) list \<Rightarrow> 'a \<Rightarrow> 'a outcome" where
  "sequence [] d = Done d"
| "sequence (s # ss) d = (case s d of Done d' \<Rightarrow> sequence ss d' | Thrown e d' \<Rightarrow> Thrown e d')"

fun on_first :: "selector \<Rightarrow> (node \<Rightarrow> node outcome) \<Rightarrow> node list \<Rightarrow> node list outcome option" where
  \<comment> \<open>runs \<open>f\<close> on the first matching element, in place; \<open>None\<close> when the query gives \<^verbatim>\<open>null\<close>\<close>
  "on_first P f [] = None"
| "on_first P f (Text s # ns) = map_option (map_outcome ((#) (Text s))) (on_first P f ns)"
| "on_first P f (Element t a l ks # ns) =
     (if P t a then Some (map_outcome (\<lambda>e. e # ns) (f (Element t a l ks)))
      else case on_first P f ks of
             Some r \<Rightarrow> Some (map_outcome (\<lambda>ks'. Element t a l ks' # ns) r)
           | None \<Rightarrow> map_option (map_outcome ((#) (Element t a l ks))) (on_first P f ns))"

fun on_place :: "place \<Rightarrow> (node \<Rightarrow> node outcome) \<Rightarrow> node list \<Rightarrow> node list outcome option" where
  \<comment> \<open>runs \<open>f\<close> on the element at a place, in place; \<open>None\<close> when the place holds no element\<close>
  "on_place [] f ns = None"
| "on_place (i # p) f [] = None"
| "on_place (0 # p) f (Text s # ns) = None"
| "on_place (0 # p) f (Element t a l ks # ns) =
     (if p = [] then Some (map_outcome (\<lambda>e. e # ns) (f (Element t a l ks)))
      else map_option (map_outcome (\<lambda>ks'. Element t a l ks' # ns)) (on_place p f ks))"
| "on_place (Suc i # p) f (n # ns) = map_option (map_outcome ((#) n)) (on_place (i # p) f ns)"

definition assign :: "selector \<Rightarrow> (node \<Rightarrow> node) \<Rightarrow> node list \<Rightarrow> node list outcome" where
  \<comment> \<open>\<^verbatim>\<open>query(sel).property = v\<close>: a TypeError on \<^verbatim>\<open>null\<close>, and nothing changed\<close>
  "assign P g d = (case on_first P (\<lambda>e. Done (g e)) d of None \<Rightarrow> Thrown TypeError d | Some r \<Rightarrow> r)"

fun beneath :: "(node list \<Rightarrow> node list outcome) \<Rightarrow> node \<Rightarrow> node outcome" where
  \<comment> \<open>statements that query below an element (\<^verbatim>\<open>row.querySelector\<close>)\<close>
  "beneath body (Element t a l ks) = map_outcome (Element t a l) (body ks)"
| "beneath body (Text s) = Done (Text s)"

fun textContent :: "string \<Rightarrow> node \<Rightarrow> node" where
  \<comment> \<open>the setter: the children are replaced by one text node, by none for the empty string\<close>
  "textContent s (Element t a l ks) = Element t a l (if s = [] then [] else [Text s])"
| "textContent s (Text _) = Text s"

fun className :: "string \<Rightarrow> node \<Rightarrow> node" where
  "className s (Element t a l ks) = Element t (set_attr ''class'' s a) l ks"
| "className s (Text x) = Text x"

fun disabled :: "bool \<Rightarrow> node \<Rightarrow> node" where
  \<comment> \<open>the setter of the reflected boolean attribute\<close>
  "disabled b (Element t a l ks) =
     Element t (if b then set_attr ''disabled'' [] a else remove_attr ''disabled'' a) l ks"
| "disabled b (Text x) = Text x"

fun replace_kids :: "node list \<Rightarrow> node \<Rightarrow> node" where
  "replace_kids ks' (Element t a l ks) = Element t a l ks'"
| "replace_kids ks' (Text x) = Text x"

fun remove_all :: "selector \<Rightarrow> node list \<Rightarrow> node list" where
  \<comment> \<open>\<^verbatim>\<open>querySelectorAll(sel).forEach(e => e.remove())\<close>: every match leaves the document,
      with all below it\<close>
  "remove_all P [] = []"
| "remove_all P (Text s # ns) = Text s # remove_all P ns"
| "remove_all P (Element t a l ks # ns) =
     (if P t a then remove_all P ns else Element t a l (remove_all P ks) # remove_all P ns)"

fun on_btn :: "(node \<Rightarrow> node) \<Rightarrow> node list \<Rightarrow> node list" where
  \<comment> \<open>a write through \<^verbatim>\<open>btn\<close>, the element the listener is registered on; when that element
      has left the document, the document does not change\<close>
  "on_btn g [] = []"
| "on_btn g (Text s # ns) = Text s # on_btn g ns"
| "on_btn g (Element t a l ks # ns) =
     (if l then g (Element t a l ks) else Element t a l (on_btn g ks)) # on_btn g ns"

subsection \<open>Markup\<close>

text \<open>
  \<^verbatim>\<open>innerHTML\<close> hands a string to the browser's HTML fragment parser. Where the string is a
  literal of the script, its parse is written out below. Where the script interpolates a
  value into it, the parser is a parameter of the model: it returns the markup tree, from
  which the elements are created (without listeners).
\<close>

datatype markup = Tag string "(string \<times> string) list" "markup list" | Chars string

type_synonym parser = "string \<Rightarrow> markup list"

fun create :: "markup \<Rightarrow> node" where
  "create (Tag t a ms) = Element t a False (map create ms)"
| "create (Chars s) = Text s"

section \<open>dashboard.js\<close>

subsection \<open>showAlert\<close>

definition alert_markup :: "string \<Rightarrow> string" where
  \<comment> \<open>the template literal of lines 61 to 64\<close>
  "alert_markup message =
     [CHR 0x0A] @ ''        '' @ message @ [CHR 0x0A] @ ''        ''
     @ ''<button type=\"button\" class=\"btn-close\" data-bs-dismiss=\"alert\"></button>''
     @ [CHR 0x0A] @ ''    ''"

definition alertDiv :: "parser \<Rightarrow> string \<Rightarrow> string \<Rightarrow> node" where
  \<comment> \<open>lines 58 to 64\<close>
  "alertDiv parse type message =
     Element ''div''
       [(''class'', ''alert alert-'' @ type @ '' alert-dismissible fade show ajax-alert''),
        (''role'', ''alert'')]
       False
       (map create (parse (alert_markup message)))"

fun insertBefore :: "selector \<Rightarrow> node \<Rightarrow> node list \<Rightarrow> node list outcome" where
  \<comment> \<open>lines 67 and 68, on the children of the container: \<^verbatim>\<open>firstChild\<close> is the first match
      below the container. \<^verbatim>\<open>insertBefore(n, null)\<close> appends; a reference node that is not a
      child of the container is a NotFoundError\<close>
  "insertBefore P n [] = Done [n]"
| "insertBefore P n (Text s # ks) = map_outcome ((#) (Text s)) (insertBefore P n ks)"
| "insertBefore P n (Element t a l cs # ks) =
     (if P t a then Done (n # Element t a l cs # ks)
      else if first_match P cs \<noteq> None then Thrown NotFoundError (Element t a l cs # ks)
      else map_outcome ((#) (Element t a l cs)) (insertBefore P n ks))"

definition showAlert :: "parser \<Rightarrow> string \<Rightarrow> string \<Rightarrow> document \<Rightarrow> document outcome" where
  \<comment> \<open>lines 54 to 68; the two timers of lines 70 to 73 run later and are not part of the call\<close>
  "showAlert parse type message doc =
     (let doc' = remove_all (by_class ''ajax-alert'') doc
      in case on_first main_container
                (beneath (insertBefore (by_class ''d-flex'') (alertDiv parse type message))) doc' of
           None \<Rightarrow> Thrown TypeError doc'
         | Some r \<Rightarrow> r)"

subsection \<open>The response\<close>

record totals =
  total_invested :: number
  total_current_value :: number
  total_profit_loss :: number
  total_profit_loss_percent :: number

text \<open>
  \<open>pid\<close> is the text that the template literal of line 26 interpolates for \<^verbatim>\<open>p.id\<close>: a string
  id itself, a number id as JavaScript prints it.
\<close>

record portfolio =
  pid :: string
  current_price :: number
  current_value :: number
  profit_loss :: number
  profit_loss_percent :: number

record response =
  error :: "string option"
  totals :: totals
  portfolios :: "portfolio list"

subsection \<open>The click handler\<close>

fun listen :: "node \<Rightarrow> node" where
  "listen (Element t a l ks) = Element t a True ks"
| "listen (Text x) = Text x"

definition register :: "document \<Rightarrow> document outcome" where
  \<comment> \<open>line 1, when the script loads: a TypeError on a page without the button\<close>
  "register = assign (by_id ''refreshPrices'') listen"

definition loading_label :: "node list" where
  \<comment> \<open>the markup of line 6, its text in UTF-8\<close>
  "loading_label =
     [Element ''span'' [(''class'', ''spinner-border spinner-border-sm'')] False [],
      Text
     [CHR 0x20, CHR 0xD0, CHR 0x9E, CHR 0xD0, CHR 0xB1, CHR 0xD0, CHR 0xBD, CHR 0xD0,
     CHR 0xBE, CHR 0xD0, CHR 0xB2, CHR 0xD0, CHR 0xBB, CHR 0xD0, CHR 0xB5, CHR 0xD0,
     CHR 0xBD, CHR 0xD0, CHR 0xB8, CHR 0xD0, CHR 0xB5, CHR 0x2E, CHR 0x2E, CHR 0x2E]]"

definition refresh_label :: "node list" where
  \<comment> \<open>the markup of lines 44 and 50, its text in UTF-8\<close>
  "refresh_label =
     [Element ''i'' [(''class'', ''bi bi-arrow-clockwise'')] False [],
      Text
     [CHR 0x20, CHR 0xD0, CHR 0x9E, CHR 0xD0, CHR 0xB1, CHR 0xD0, CHR 0xBD, CHR 0xD0,
     CHR 0xBE, CHR 0xD0, CHR 0xB2, CHR 0xD0, CHR 0xB8, CHR 0xD1, CHR 0x82, CHR 0xD1,
     CHR 0x8C, CHR 0x20, CHR 0xD1, CHR 0x86, CHR 0xD0, CHR 0xB5, CHR 0xD0, CHR 0xBD,
     CHR 0xD1, CHR 0x8B]]"

definition failure_message :: string where
  \<comment> \<open>the message of line 48, in UTF-8\<close>
  "failure_message =
     [CHR 0xD0, CHR 0x9E, CHR 0xD1, CHR 0x88, CHR 0xD0, CHR 0xB8, CHR 0xD0, CHR 0xB1,
     CHR 0xD0, CHR 0xBA, CHR 0xD0, CHR 0xB0, CHR 0x20, CHR 0xD0, CHR 0xBF, CHR 0xD1,
     CHR 0x80, CHR 0xD0, CHR 0xB8, CHR 0x20, CHR 0xD0, CHR 0xBE, CHR 0xD0, CHR 0xB1,
     CHR 0xD0, CHR 0xBD, CHR 0xD0, CHR 0xBE, CHR 0xD0, CHR 0xB2, CHR 0xD0, CHR 0xBB,
     CHR 0xD0, CHR 0xB5, CHR 0xD0, CHR 0xBD, CHR 0xD0, CHR 0xB8, CHR 0xD0, CHR 0xB8,
     CHR 0x20, CHR 0xD1, CHR 0x86, CHR 0xD0, CHR 0xB5, CHR 0xD0, CHR 0xBD, CHR 0x2E,
     CHR 0x20, CHR 0xD0, CHR 0x9F, CHR 0xD1, CHR 0x80, CHR 0xD0, CHR 0xBE, CHR 0xD0,
     CHR 0xB2, CHR 0xD0, CHR 0xB5, CHR 0xD1, CHR 0x80, CHR 0xD1, CHR 0x8C, CHR 0xD1,
     CHR 0x82, CHR 0xD0, CHR 0xB5, CHR 0x20, CHR 0xD0, CHR 0xBF, CHR 0xD0, CHR 0xBE,
     CHR 0xD0, CHR 0xB4, CHR 0xD0, CHR 0xBA, CHR 0xD0, CHR 0xBB, CHR 0xD1, CHR 0x8E,
     CHR 0xD1, CHR 0x87, CHR 0xD0, CHR 0xB5, CHR 0xD0, CHR 0xBD, CHR 0xD0, CHR 0xB8,
     CHR 0xD0, CHR 0xB5, CHR 0x20, CHR 0xD0, CHR 0xBA, CHR 0x20, CHR 0xD0, CHR 0xB8,
     CHR 0xD0, CHR 0xBD, CHR 0xD1, CHR 0x82, CHR 0xD0, CHR 0xB5, CHR 0xD1, CHR 0x80,
     CHR 0xD0, CHR 0xBD, CHR 0xD0, CHR 0xB5, CHR 0xD1, CHR 0x82, CHR 0xD1, CHR 0x83,
     CHR 0x2E]"

definition plSign :: "number \<Rightarrow> string" where
  \<comment> \<open>lines 18 and 31\<close>
  "plSign x = (if js_ge x (Finite 0) then ''+'' else [])"

definition plClass :: "number \<Rightarrow> string" where
  \<comment> \<open>lines 23 and 32\<close>
  "plClass x = (if js_ge x (Finite 0) then ''profit'' else ''loss'')"

definition totalPL_text :: "totals \<Rightarrow> string" where
  \<comment> \<open>lines 18 to 21\<close>
  "totalPL_text t =
     plSign (total_profit_loss t) @ ''$'' @ toFixed (total_profit_loss t) 2
     @ '' ('' @ plSign (total_profit_loss t) @ toFixed (total_profit_loss_percent t) 2 @ ''%)''"

definition update_totals :: "totals \<Rightarrow> document \<Rightarrow> document outcome" where
  \<comment> \<open>lines 15 to 23\<close>
  "update_totals t = sequence
     [assign (by_id ''totalInvested'') (textContent (''$'' @ toFixed (total_invested t) 2)),
      assign (by_id ''totalValue'') (textContent (''$'' @ toFixed (total_current_value t) 2)),
      assign (by_id ''totalPL'') (textContent (totalPL_text t)),
      assign (by_id ''totalPL'') (className (''card-title '' @ plClass (total_profit_loss t)))]"

definition write_cells :: "portfolio \<Rightarrow> (node list \<Rightarrow> node list outcome) list" where
  \<comment> \<open>lines 28 and 29\<close>
  "write_cells p =
     [assign (by_class ''current-price'') (textContent (''$'' @ toFixed (current_price p) 2)),
      assign (by_class ''current-value'') (textContent (''$'' @ toFixed (current_value p) 2))]"

definition write_pl :: "portfolio \<Rightarrow> (node list \<Rightarrow> node list outcome) list" where
  \<comment> \<open>lines 31 to 35\<close>
  "write_pl p =
     [assign (by_class ''profit-loss'')
        (textContent (plSign (profit_loss p) @ ''$'' @ toFixed (profit_loss p) 2)),
      assign (by_class ''profit-loss'') (className (plClass (profit_loss p) @ '' profit-loss''))]"

definition write_percent :: "portfolio \<Rightarrow> (node list \<Rightarrow> node list outcome) list" where
  \<comment> \<open>lines 37 to 39\<close>
  "write_percent p =
     [assign (by_class ''profit-loss-percent'')
        (textContent (''('' @ plSign (profit_loss p) @ toFixed (profit_loss_percent p) 2 @ ''%)'')),
      assign (by_class ''profit-loss-percent'')
        (className (plClass (profit_loss p) @ '' profit-loss-percent''))]"

definition update_row :: "portfolio \<Rightarrow> node \<Rightarrow> node outcome" where
  \<comment> \<open>lines 28 to 39, on the row found\<close>
  "update_row p = beneath (sequence (write_cells p @ write_pl p @ write_percent p))"

text \<open>
  Line 26 builds the text of a selector by interpolation of the id, without escaping, and
  hands it to \<^verbatim>\<open>querySelector\<close>. The model reads the text itself in two cases.

  \<^item> The id text is plain: it has no quote, backslash or line break, which would end the
    quoted value or start an escape in it, and no NUL, which the reader of a selector text
    replaces by U+FFFD. Then the text is the selector \<^verbatim>\<open>tr[data-portfolio-id="v"]\<close> with the id
    text as its value.

  \<^item> The id text has a quote, and no backslash, closing bracket or slash. The first quote
    ends the value (or a line break before it has broken the string). The quote that the
    template puts after the id text then belongs to one more string inside the brackets,
    since no escape or comment can hold it and nothing has closed the brackets; an
    attribute selector takes nothing of that kind after its value, so the text is no
    selector and \<^verbatim>\<open>querySelector\<close> throws a SyntaxError.

  For every other id text (an escape, or selector syntax that the id text carries), what
  the browser's selector engine makes of the selector text is a parameter of the model, as
  the fragment parser is. The engine gives \<open>None\<close> for a text that is no selector; else it
  gives the query, which tells for a document the place of the first element that matches,
  or \<open>None\<close> when none does.
\<close>

type_synonym engine = "string \<Rightarrow> (document \<Rightarrow> place option) option"

definition row_selector :: "string \<Rightarrow> string" where
  \<comment> \<open>the template literal of line 26\<close>
  "row_selector v = ''tr[data-portfolio-id=\"'' @ v @ ''\"]''"

definition plain_value :: "string \<Rightarrow> bool" where
  "plain_value v = (CHR 0x22 \<notin> set v \<and> CHR 0x5C \<notin> set v \<and> CHR 0x0A \<notin> set v
                    \<and> CHR 0x0C \<notin> set v \<and> CHR 0x0D \<notin> set v \<and> CHR 0x00 \<notin> set v)"

definition malformed_value :: "string \<Rightarrow> bool" where
  "malformed_value v = (CHR 0x22 \<in> set v \<and> CHR 0x5C \<notin> set v \<and> CHR '']'' \<notin> set v
                        \<and> CHR ''/'' \<notin> set v)"

definition update_portfolio :: "engine \<Rightarrow> portfolio \<Rightarrow> document \<Rightarrow> document outcome" where
  \<comment> \<open>the callback of lines 25 to 41; line 27 skips the entry when the query gives \<^verbatim>\<open>null\<close>\<close>
  "update_portfolio css p doc =
     (if plain_value (pid p) then
        (case on_first (portfolio_row (pid p)) (update_row p) doc of
           None \<Rightarrow> Done doc
         | Some r \<Rightarrow> r)
      else if malformed_value (pid p) then Thrown SyntaxError doc
      else case css (row_selector (pid p)) of
             None \<Rightarrow> Thrown SyntaxError doc
           | Some query \<Rightarrow>
               (case Option.bind (query doc) (\<lambda>pl. on_place pl (update_row p) doc) of
                  None \<Rightarrow> Done doc
                | Some r \<Rightarrow> r))"

definition restore_button :: "document \<Rightarrow> document outcome" where
  \<comment> \<open>lines 43 and 44, 49 and 50\<close>
  "restore_button doc = Done (on_btn (\<lambda>b. replace_kids refresh_label (disabled False b)) doc)"

definition truthy :: "string option \<Rightarrow> bool" where
  \<comment> \<open>\<^verbatim>\<open>if (data.error)\<close>: an absent field and the empty string are falsy\<close>
  "truthy e = (case e of None \<Rightarrow> False | Some s \<Rightarrow> s \<noteq> [])"

definition prologue :: "parser \<Rightarrow> response \<Rightarrow> (document \<Rightarrow> document outcome) list" where
  \<comment> \<open>lines 11 to 23\<close>
  "prologue parse data =
     (if truthy (error data) then [showAlert parse ''warning'' (the (error data))] else [])
     @ [update_totals (totals data)]"

definition on_data :: "parser \<Rightarrow> engine \<Rightarrow> response \<Rightarrow> document \<Rightarrow> document outcome" where
  \<comment> \<open>the callback of lines 10 to 45\<close>
  "on_data parse css data = sequence
     (prologue parse data @ map (update_portfolio css) (portfolios data) @ [restore_button])"

definition on_error :: "parser \<Rightarrow> document \<Rightarrow> document outcome" where
  \<comment> \<open>the callback of lines 46 to 51; \<^verbatim>\<open>console.error\<close> changes nothing in the document\<close>
  "on_error parse = sequence [showAlert parse ''danger'' failure_message, restore_button]"

datatype fetched =
    Rejected  \<comment> \<open>the request failed, or the body is not JSON\<close>
  | Resolved response

definition click :: "parser \<Rightarrow> engine \<Rightarrow> fetched \<Rightarrow> document \<Rightarrow> document outcome" where
  \<comment> \<open>lines 2 to 51: the state when the promise chain has settled. \<open>Thrown\<close> is a rejection
      that nothing handles\<close>
  "click parse css r doc =
     (let doc' = on_btn (\<lambda>b. replace_kids loading_label (disabled True b)) doc
      in case r of
           Rejected \<Rightarrow> on_error parse doc'
         | Resolved data \<Rightarrow>
             (case on_data parse css data doc' of
                Done d \<Rightarrow> Done d
              | Thrown e d \<Rightarrow> on_error parse d))"

section \<open>The chart tooltip\<close>




section \<open>Example pages and responses\<close>

text \<open>
  A fragment parser for the examples: it parses the alert template around a message that
  is plain text (no tag, no character reference), where the browser's parser gives one text
  node, the close button and the trailing white space. Any other string it returns as text.
\<close>

definition template_parser :: parser where
  "template_parser s =
     (let m = take (length s - length (alert_markup [])) (drop 9 s)
      in if s = alert_markup m \<and> CHR ''<'' \<notin> set m \<and> CHR ''&'' \<notin> set m
         then [Chars (take (length m + 18) s),
               Tag ''button''
                 [(''type'', ''button''), (''class'', ''btn-close''), (''data-bs-dismiss'', ''alert'')] [],
               Chars (drop (length s - 5) s)]
         else [Chars s])"

definition refresh_button :: node where
  "refresh_button =
     Element ''button'' [(''id'', ''refreshPrices''), (''data-url'', ''/refresh/'')] True refresh_label"

definition row1 :: node where
  "row1 = Element ''tr'' [(''data-portfolio-id'', ''1'')] False
     [Element ''td'' [] False [Text ''BTC''],
      Element ''td'' [(''class'', ''current-price'')] False [Text ''$1.00''],
      Element ''td'' [(''class'', ''current-value'')] False [Text ''$2.00''],
      Element ''td'' [(''class'', ''profit profit-loss'')] False [Text ''+$1.00''],
      Element ''td'' [(''class'', ''profit profit-loss-percent'')] False [Text ''(+100.00%)'']]"

definition losing_row :: node where
  \<comment> \<open>a row that shows a loss\<close>
  "losing_row = Element ''tr'' [(''data-portfolio-id'', ''7'')] False
     [Element ''td'' [] False [Text ''ETH''],
      Element ''td'' [(''class'', ''current-price'')] False [Text ''$1.00''],
      Element ''td'' [(''class'', ''current-value'')] False [Text ''$0.50''],
      Element ''td'' [(''class'', ''loss profit-loss'')] False [Text ''$-0.50''],
      Element ''td'' [(''class'', ''loss profit-loss-percent'')] False [Text ''(-50.00%)'']]"

definition cards :: "node list" where
  "cards =
     [Element ''h5'' [(''id'', ''totalInvested'')] False [Text ''$0.00''],
      Element ''h5'' [(''id'', ''totalValue'')] False [Text ''$0.00''],
      Element ''h5'' [(''id'', ''totalPL''), (''class'', ''card-title profit'')] False
        [Text ''+$0.00 (+0.00%)''],
      Element ''table'' [] False [row1]]"

definition page :: document where
  \<comment> \<open>the dashboard as the scripts expect it, the listener registered\<close>
  "page = [Element ''html'' [] False
     [Element ''body'' [] False
       [Element ''main'' [(''class'', ''container'')] False
         (Element ''div'' [(''class'', ''d-flex'')] False [refresh_button] # cards)]]]"

definition page_without_anchor :: document where
  \<comment> \<open>the container has no \<^verbatim>\<open>.d-flex\<close> element\<close>
  "page_without_anchor = [Element ''html'' [] False
     [Element ''body'' [] False
       [Element ''main'' [(''class'', ''container'')] False (refresh_button # cards)]]]"

definition page_without_container :: document where
  \<comment> \<open>no \<^verbatim>\<open>main.container\<close>; an alert from an earlier call is on the page\<close>
  "page_without_container = [Element ''html'' [] False
     [Element ''body'' [] False
       (Element ''div'' [(''class'', ''alert alert-warning ajax-alert'')] False [Text ''old'']
        # Element ''div'' [(''class'', ''d-flex'')] False [refresh_button] # cards)]]"

definition some_totals :: totals where
  "some_totals = \<lparr>total_invested = Finite 100, total_current_value = Finite 105,
     total_profit_loss = Finite 5, total_profit_loss_percent = Finite (- 3)\<rparr>"

definition loss_totals :: totals where
  "loss_totals = \<lparr>total_invested = Finite 100, total_current_value = Finite 95,
     total_profit_loss = Finite (- 5), total_profit_loss_percent = Finite 3\<rparr>"

definition minus_12_345 :: number where
  \<comment> \<open>the double that the literal \<^verbatim>\<open>-12.345\<close> denotes\<close>
  "minus_12_345 = to_double (- 12345 / 1000)"

definition loss_entry :: portfolio where
  "loss_entry = \<lparr>pid = ''1'', current_price = Finite 3, current_value = Finite 4,
     profit_loss = minus_12_345, profit_loss_percent = Finite (- 5)\<rparr>"

definition zero_entry :: portfolio where
  "zero_entry = \<lparr>pid = ''1'', current_price = Finite 3, current_value = Finite 4,
     profit_loss = Finite 0, profit_loss_percent = Finite 0\<rparr>"

definition stale_entry :: portfolio where
  \<comment> \<open>no row of the page carries this id\<close>
  "stale_entry = \<lparr>pid = ''2'', current_price = Finite 7, current_value = Finite 8,
     profit_loss = Finite 1, profit_loss_percent = Finite 1\<rparr>"

definition escaped_entry :: portfolio where
  \<comment> \<open>the id is the string \<^verbatim>\<open>a\b\<close>\<close>
  "escaped_entry = \<lparr>pid = [CHR ''a'', CHR 0x5C, CHR ''b''], current_price = Finite 3,
     current_value = Finite 4, profit_loss = minus_12_345, profit_loss_percent = Finite (- 5)\<rparr>"

definition injected_entry :: portfolio where
  \<comment> \<open>the id is the string \<^verbatim>\<open>1"],tr[data-portfolio-id="1\<close>\<close>
  "injected_entry = \<lparr>pid = ''1\"],tr[data-portfolio-id=\"1'', current_price = Finite 3,
     current_value = Finite 4, profit_loss = minus_12_345, profit_loss_percent = Finite (- 5)\<rparr>"

definition example_engine :: engine where
  \<comment> \<open>An engine for the examples. Of the selector texts that the model leaves to the engine
      it reads two, as a browser does: \<^verbatim>\<open>tr[data-portfolio-id="a\b"]\<close>, where \<^verbatim>\<open>\b\<close> is the
      escape of U+000B, and \<^verbatim>\<open>tr[data-portfolio-id="1"],tr[data-portfolio-id="1"]\<close>, a list of
      two selectors. The examples bring it no other text\<close>
  "example_engine s =
     (if s = row_selector (pid escaped_entry)
        then Some (first_place (portfolio_row [CHR ''a'', CHR 0x0B]))
      else if s = row_selector (pid injected_entry)
        then Some (first_place (portfolio_row ''1''))
      else None)"

definition quoted_entry :: portfolio where
  \<comment> \<open>the id is the string \<^verbatim>\<open>a"b\<close>\<close>
  "quoted_entry = \<lparr>pid = [CHR ''a'', CHR 0x22, CHR ''b''], current_price = Finite 7,
     current_value = Finite 8, profit_loss = Finite 1, profit_loss_percent = Finite 1\<rparr>"

section \<open>Facts about the model\<close>

subsection \<open>Outcomes and sequences\<close>

lemma map_outcome_Done: "map_outcome g r = Done y \<longleftrightarrow> (\<exists>x. r = Done x \<and> y = g x)"
  by (cases r) auto

lemma sequence_append:
  "sequence (xs @ ys) d = (case sequence xs d of Done d' \<Rightarrow> sequence ys d' | Thrown e d' \<Rightarrow> Thrown e d')"
  by (induction xs arbitrary: d) (auto split: outcome.splits)

subsection \<open>Queries and assignments\<close>

lemma first_match_Some:
  "first_match P ns = Some e \<Longrightarrow> \<exists>t a l ks. e = Element t a l ks \<and> P t a"
  by (induction P ns rule: first_match.induct) (auto split: if_splits option.splits)

lemma on_first_None: "on_first P f ns = None \<longleftrightarrow> first_match P ns = None"
  by (induction P f ns rule: on_first.induct) (auto split: option.splits)

lemma on_first_NoneI: "first_match P ns = None \<Longrightarrow> on_first P f ns = None"
  by (simp add: on_first_None)

lemma on_first_Done:
  assumes "first_match P ns = Some e" and "f e = Done (Element t' a' l' ks')" and "P t' a'"
  shows "\<exists>ns'. on_first P f ns = Some (Done ns') \<and> first_match P ns' = Some (Element t' a' l' ks')"
  using assms
proof (induction P ns rule: first_match.induct)
  case (1 P)
  then show ?case by simp
next
  case (2 P s ns)
  then obtain ns' where "on_first P f ns = Some (Done ns')"
    "first_match P ns' = Some (Element t' a' l' ks')"
    by auto
  then show ?case by simp
next
  case (3 P t a l ks ns)
  show ?case
  proof (cases "P t a")
    case True
    with 3 show ?thesis by auto
  next
    case False
    show ?thesis
    proof (cases "first_match P ks")
      case None
      with False 3 obtain ns' where "on_first P f ns = Some (Done ns')"
        "first_match P ns' = Some (Element t' a' l' ks')"
        by auto
      with False None show ?thesis
        by (simp add: on_first_NoneI)
    next
      case (Some x)
      with False 3 obtain ks'' where "on_first P f ks = Some (Done ks'')"
        "first_match P ks'' = Some (Element t' a' l' ks')"
        by auto
      with False show ?thesis by simp
    qed
  qed
qed

lemma on_first_Done_conv:
  assumes "first_match P ns = Some e" and "on_first P f ns = Some (Done ns')"
  shows "\<exists>e'. f e = Done e'"
  using assms
proof (induction P ns arbitrary: ns' rule: first_match.induct)
  case (1 P)
  then show ?case by simp
next
  case (2 P s ns)
  then show ?case
    by (auto simp: map_outcome_Done)
next
  case (3 P t a l ks ns)
  show ?case
  proof (cases "P t a")
    case True
    with 3 show ?thesis
      by (auto simp: map_outcome_Done)
  next
    case False
    show ?thesis
    proof (cases "first_match P ks")
      case None
      with False 3 show ?thesis
        by (auto simp: map_outcome_Done on_first_NoneI)
    next
      case (Some x)
      then obtain r where "on_first P f ks = Some r"
        using on_first_None[of P f ks] by (cases "on_first P f ks") auto
      with False Some 3 show ?thesis
        by (auto simp: map_outcome_Done)
    qed
  qed
qed

lemma assign_first:
  assumes "first_match P ns = Some e" and "g e = Element t' a' l' ks'" and "P t' a'"
  shows "\<exists>ns'. assign P g ns = Done ns' \<and> first_match P ns' = Some (g e)"
proof -
  have "(\<lambda>e. Done (g e)) e = Done (Element t' a' l' ks')"
    using assms(2) by simp
  from on_first_Done[where f = "\<lambda>e. Done (g e)", OF assms(1) this assms(3)]
  show ?thesis
    by (auto simp: assign_def assms(2))
qed

lemma assign_Done:
  "assign P g ns = Done ns' \<Longrightarrow> \<exists>e. first_match P ns = Some e"
  by (cases "first_match P ns") (auto simp: assign_def on_first_NoneI)

lemma assign_text_Done:
  assumes "assign P (textContent s) ks = Done ks'" and "s \<noteq> []"
  shows "\<exists>t a l c. first_match P ks = Some (Element t a l c)
           \<and> first_match P ks' = Some (Element t a l [Text s])"
proof -
  from assign_Done[OF assms(1)] first_match_Some obtain t a l c
    where e: "first_match P ks = Some (Element t a l c)" and P: "P t a"
    by blast
  have t: "textContent s (Element t a l c) = Element t a l [Text s]"
    using assms(2) by simp
  from assign_first[where g = "textContent s", OF e t P] assms(1)
  have "first_match P ks' = Some (Element t a l [Text s])"
    using assms(2) by simp
  with e show ?thesis by blast
qed

lemma assign_class_Done:
  assumes "assign P (className v) ks = Done ks'"
    and "\<And>t a. P t a \<Longrightarrow> P t (set_attr ''class'' v a)"
  shows "\<exists>t a l c. first_match P ks = Some (Element t a l c)
           \<and> first_match P ks' = Some (Element t (set_attr ''class'' v a) l c)"
proof -
  from assign_Done[OF assms(1)] first_match_Some obtain t a l c
    where e: "first_match P ks = Some (Element t a l c)" and P: "P t a"
    by blast
  have t: "className v (Element t a l c) = Element t (set_attr ''class'' v a) l c"
    by simp
  from assign_first[where g = "className v", OF e t assms(2)[OF P]] assms(1)
  have "first_match P ks' = Some (Element t (set_attr ''class'' v a) l c)"
    by simp
  with e show ?thesis by blast
qed

lemma text_and_class_Done:
  assumes "sequence [assign P (textContent s), assign P (className v)] ks = Done ks'"
    and "s \<noteq> []" and "\<And>t a. P t (set_attr ''class'' v a)"
  shows "\<exists>t a l c. first_match P ks = Some (Element t a l c)
           \<and> first_match P ks' = Some (Element t (set_attr ''class'' v a) l [Text s])"
proof -
  from assms(1) obtain k where 1: "assign P (textContent s) ks = Done k"
    and 2: "assign P (className v) k = Done ks'"
    by (auto split: outcome.splits)
  from assign_text_Done[OF 1 assms(2)] obtain t a l c
    where a: "first_match P ks = Some (Element t a l c)" "first_match P k = Some (Element t a l [Text s])"
    by blast
  from assign_class_Done[OF 2 assms(3)] a(2)
  have "first_match P ks' = Some (Element t (set_attr ''class'' v a) l [Text s])"
    by simp
  with a(1) show ?thesis by blast
qed

subsection \<open>Places\<close>

lemma first_place_nonempty: "first_place P ns = Some p \<Longrightarrow> p \<noteq> []"
  by (induction P ns arbitrary: p rule: first_place.induct)
     (auto split: if_splits option.splits elim: shift.elims)

lemma on_place_shift:
  "p \<noteq> [] \<Longrightarrow> on_place (shift p) f (n # ns) = map_option (map_outcome ((#) n)) (on_place p f ns)"
  by (cases p) simp_all

lemma on_first_None_place: "on_first P f ns = None \<longleftrightarrow> first_place P ns = None"
  by (induction P f ns rule: on_first.induct) (auto split: option.splits)

lemma on_first_place:
  "on_first P f ns = Option.bind (first_place P ns) (\<lambda>p. on_place p f ns)"
proof (induction P f ns rule: on_first.induct)
  case (1 P f)
  then show ?case by simp
next
  case (2 P f s ns)
  show ?case
  proof (cases "first_place P ns")
    case None
    with 2 show ?thesis by simp
  next
    case (Some p)
    from first_place_nonempty[OF Some] have "p \<noteq> []" .
    with 2 Some show ?thesis
      by (simp add: on_place_shift)
  qed
next
  case (3 P f t a l ks ns)
  show ?case
  proof (cases "P t a")
    case True
    then show ?thesis by simp
  next
    case False
    show ?thesis
    proof (cases "first_place P ks")
      case None
      then have k: "on_first P f ks = None"
        by (simp add: on_first_None_place)
      show ?thesis
      proof (cases "first_place P ns")
        case N: None
        with 3(2)[OF False k] False None k show ?thesis by simp
      next
        case (Some p)
        from first_place_nonempty[OF Some] have "p \<noteq> []" .
        with Some 3(2)[OF False k] False None k show ?thesis
          by (simp add: on_place_shift)
      qed
    next
      case (Some p)
      then have "on_first P f ks \<noteq> None"
        by (simp add: on_first_None_place)
      then obtain r where r: "on_first P f ks = Some r"
        by auto
      with 3(1)[OF False] Some have "on_place p f ks = Some r"
        by simp
      with r first_place_nonempty[OF Some] Some False show ?thesis
        by simp
    qed
  qed
qed

subsection \<open>Counting and removing\<close>

lemma count_Cons:
  "count_matches Q (n # ns) = count_matches Q [n] + count_matches Q ns"
  by (cases n) auto

lemma count_remove_all: "count_matches P (remove_all P ns) = 0"
  by (induction P ns rule: remove_all.induct) auto

lemma first_match_count: "first_match P ns = None \<longleftrightarrow> count_matches P ns = 0"
  by (induction P ns rule: first_match.induct) (auto split: option.splits)

lemma first_match_removed: "first_match Q (remove_all Q ns) = None"
  by (simp add: first_match_count count_remove_all)

lemma first_match_remove_all:
  "first_match P ns = None \<Longrightarrow> first_match P (remove_all Q ns) = None"
  by (induction Q ns rule: remove_all.induct) (fastforce split: option.splits if_splits)+

subsection \<open>Attributes and classes\<close>

lemma map_of_set_attr: "map_of (set_attr k v a) k = Some v"
  by (induction a) auto

lemma map_of_set_attr_other: "k' \<noteq> k \<Longrightarrow> map_of (set_attr k v a) k' = map_of a k'"
  by (induction a) auto

lemma tokens_word:
  "\<forall>c\<in>set w. \<not> is_space c \<Longrightarrow> tokens cur w = (if cur @ w = [] then [] else [cur @ w])"
  by (induction w arbitrary: cur) auto

lemma tokens_last:
  "w \<noteq> [] \<Longrightarrow> \<forall>c\<in>set w. \<not> is_space c \<Longrightarrow> w \<in> set (tokens cur (s @ CHR 0x20 # w))"
proof (induction s arbitrary: cur)
  case Nil
  then show ?case
    by (simp add: tokens_word is_space_def)
next
  case (Cons c s)
  then show ?case
    by simp
qed

lemma alertDiv_marked:
  "by_class ''ajax-alert'' t
     [(''class'', ''alert alert-'' @ ty @ '' alert-dismissible fade show ajax-alert''), (''role'', ''alert'')]"
proof -
  have "''alert alert-'' @ ty @ '' alert-dismissible fade show ajax-alert''
          = (''alert alert-'' @ ty @ '' alert-dismissible fade show'') @ CHR 0x20 # ''ajax-alert''"
    by simp
  moreover have "''ajax-alert'' \<in> set (tokens [] ((''alert alert-'' @ ty @ '' alert-dismissible fade show'') @ CHR 0x20 # ''ajax-alert''))"
    by (rule tokens_last) (simp_all add: is_space_def)
  ultimately show ?thesis
    by (simp add: by_class_def classList_def)
qed

lemma by_class_profit_loss:
  "by_class ''profit-loss'' t (set_attr ''class'' (plClass x @ '' profit-loss'') a)"
  by (simp add: by_class_def classList_def map_of_set_attr plClass_def is_space_def)

lemma by_class_percent:
  "by_class ''profit-loss-percent'' t (set_attr ''class'' (plClass x @ '' profit-loss-percent'') a)"
  by (simp add: by_class_def classList_def map_of_set_attr plClass_def is_space_def)

lemma classList_profit_loss:
  "classList (set_attr ''class'' (plClass x @ '' profit-loss'') a) = [plClass x, ''profit-loss'']"
  by (simp add: classList_def map_of_set_attr plClass_def is_space_def)

lemma classList_percent:
  "classList (set_attr ''class'' (plClass x @ '' profit-loss-percent'') a)
     = [plClass x, ''profit-loss-percent'']"
  by (simp add: classList_def map_of_set_attr plClass_def is_space_def)

subsection \<open>The alert\<close>

lemma insertBefore_count:
  "insertBefore A n ks = Done ks' \<Longrightarrow> count_matches Q ks' = count_matches Q ks + count_matches Q [n]"
proof (induction A n ks arbitrary: ks' rule: insertBefore.induct)
  case (1 P n)
  then show ?case by auto
next
  case (2 P n s ks)
  then obtain ks'' where "insertBefore P n ks = Done ks''" "ks' = Text s # ks''"
    by (auto simp: map_outcome_Done)
  with 2 show ?case by simp
next
  case (3 P n t a l cs ks)
  show ?case
  proof (cases "P t a")
    case True
    with 3 have "ks' = n # Element t a l cs # ks" by simp
    then show ?thesis
      using count_Cons[of Q n "Element t a l cs # ks"] by simp
  next
    case False
    with 3 obtain ks'' where *: "first_match P cs = None" "insertBefore P n ks = Done ks''"
      "ks' = Element t a l cs # ks''"
      by (auto simp: map_outcome_Done split: if_splits)
    with 3 False have "count_matches Q ks'' = count_matches Q ks + count_matches Q [n]"
      by simp
    with * show ?thesis by simp
  qed
qed

lemma insertBefore_absent:
  "first_match A ks = None \<Longrightarrow> insertBefore A n ks = Done (ks @ [n])"
  by (induction A n ks rule: insertBefore.induct) (auto split: option.splits if_splits)

lemma insertBefore_first:
  assumes "insertBefore A (Element t a l c) ks = Done ks'" and "first_match Q ks = None" and "Q t a"
  shows "first_match Q ks' = Some (Element t a l c)"
  using assms
proof (induction A "Element t a l c" ks arbitrary: ks' rule: insertBefore.induct)
  case (1 P)
  then show ?case by auto
next
  case (2 P s ks)
  then obtain ks'' where "insertBefore P (Element t a l c) ks = Done ks''" "ks' = Text s # ks''"
    by (auto simp: map_outcome_Done)
  with 2 show ?case by simp
next
  case (3 P t2 a2 l2 cs ks)
  note Q = \<open>first_match Q (Element t2 a2 l2 cs # ks) = None\<close>
  show ?case
  proof (cases "P t2 a2")
    case True
    with 3 have "ks' = Element t a l c # Element t2 a2 l2 cs # ks" by simp
    with 3 show ?thesis by simp
  next
    case False
    with 3 obtain ks'' where *: "insertBefore P (Element t a l c) ks = Done ks''"
      "ks' = Element t2 a2 l2 cs # ks''" "first_match P cs = None"
      by (auto simp: map_outcome_Done split: if_splits)
    from Q have q: "\<not> Q t2 a2" "first_match Q cs = None" "first_match Q ks = None"
      by (auto split: if_splits option.splits)
    from "3.hyps"(1)[OF False _ *(1) q(3) "3.prems"(3)] *(3)
    have "first_match Q ks'' = Some (Element t a l c)"
      by simp
    with * q show ?thesis by simp
  qed
qed

lemma on_first_count:
  assumes "on_first P f ns = Some (Done ns')"
    and "\<And>t a l ks e'. f (Element t a l ks) = Done e' \<Longrightarrow>
           count_matches Q [e'] = count_matches Q [Element t a l ks] + c"
  shows "count_matches Q ns' = count_matches Q ns + c"
  using assms
proof (induction P f ns arbitrary: ns' rule: on_first.induct)
  case (1 P f)
  then show ?case by simp
next
  case (2 P f s ns)
  then obtain ns'' where "on_first P f ns = Some (Done ns'')" "ns' = Text s # ns''"
    by (auto simp: map_outcome_Done)
  with 2 show ?case by simp
next
  case (3 P f t a l ks ns)
  show ?case
  proof (cases "P t a")
    case True
    with 3 obtain e' where e: "f (Element t a l ks) = Done e'" "ns' = e' # ns"
      by (auto simp: map_outcome_Done)
    from 3(4)[OF e(1)] e(2) show ?thesis
      using count_Cons[of Q e' ns] by simp
  next
    case False
    show ?thesis
    proof (cases "on_first P f ks")
      case None
      with False 3 obtain ns'' where *: "on_first P f ns = Some (Done ns'')"
        "ns' = Element t a l ks # ns''"
        by (auto simp: map_outcome_Done)
      from 3(2)[OF False None *(1) 3(4)] * show ?thesis by simp
    next
      case (Some r)
      with False 3 obtain ks'' where *: "r = Done ks''" "ns' = Element t a l ks'' # ns"
        by (auto simp: map_outcome_Done)
      from 3(1)[OF False] Some * 3(4) have "count_matches Q ks'' = count_matches Q ks + c"
        by blast
      with * show ?thesis by simp
    qed
  qed
qed

lemma beneath_count:
  assumes "beneath body (Element t a l ks) = Done e'"
    and "\<And>ks ks'. body ks = Done ks' \<Longrightarrow> count_matches Q ks' = count_matches Q ks + c"
  shows "count_matches Q [e'] = count_matches Q [Element t a l ks] + c"
proof -
  from assms(1) obtain ks' where "body ks = Done ks'" "e' = Element t a l ks'"
    by (auto simp: map_outcome_Done)
  with assms(2)[of ks ks'] show ?thesis by simp
qed

lemma on_first_first:
  assumes "on_first P f ns = Some (Done ns')" and "first_match Q ns = None"
    and "\<And>t a l ks e'. f (Element t a l ks) = Done e' \<Longrightarrow> first_match Q [Element t a l ks] = None
           \<Longrightarrow> first_match Q [e'] = Some n"
  shows "first_match Q ns' = Some n"
  using assms
proof (induction P f ns arbitrary: ns' rule: on_first.induct)
  case (1 P f)
  then show ?case by simp
next
  case (2 P f s ns)
  then obtain ns'' where "on_first P f ns = Some (Done ns'')" "ns' = Text s # ns''"
    by (auto simp: map_outcome_Done)
  with 2 show ?case by simp
next
  case (3 P f t a l ks ns)
  from \<open>first_match Q (Element t a l ks # ns) = None\<close>
  have q: "\<not> Q t a" "first_match Q ks = None" "first_match Q ns = None"
    by (auto split: if_splits option.splits)
  show ?case
  proof (cases "P t a")
    case True
    with 3 obtain e' where e: "f (Element t a l ks) = Done e'" "ns' = e' # ns"
      by (auto simp: map_outcome_Done)
    from "3.prems"(3)[OF e(1)] q have "first_match Q [e'] = Some n" by simp
    with e(2) show ?thesis
      by (cases e') (auto split: if_splits option.splits)
  next
    case False
    show ?thesis
    proof (cases "on_first P f ks")
      case None
      with False 3 obtain ns'' where *: "on_first P f ns = Some (Done ns'')"
        "ns' = Element t a l ks # ns''"
        by (auto simp: map_outcome_Done)
      from "3.IH"(2)[OF False None *(1) q(3) "3.prems"(3)] * q show ?thesis by simp
    next
      case (Some r)
      with False 3 obtain ks'' where *: "r = Done ks''" "ns' = Element t a l ks'' # ns"
        by (auto simp: map_outcome_Done)
      from Some * have "on_first P f ks = Some (Done ks'')" by simp
      from "3.IH"(1)[OF False this q(2) "3.prems"(3)] have "first_match Q ks'' = Some n" .
      with * q show ?thesis by simp
    qed
  qed
qed

lemma count_alertDiv:
  "count_matches (by_class ''ajax-alert'') [alertDiv parse ty m] =
     1 + count_matches (by_class ''ajax-alert'') (map create (parse (alert_markup m)))"
  using alertDiv_marked[of "''div''" ty] by (simp add: alertDiv_def)

lemma showAlert_count:
  assumes "showAlert parse ty m doc = Done doc'"
  shows "count_matches Q doc' =
           count_matches Q (remove_all (by_class ''ajax-alert'') doc) + count_matches Q [alertDiv parse ty m]"
proof -
  let ?d = "remove_all (by_class ''ajax-alert'') doc"
  let ?f = "beneath (insertBefore (by_class ''d-flex'') (alertDiv parse ty m))"
  from assms have "on_first main_container ?f ?d = Some (Done doc')"
    by (auto simp: showAlert_def Let_def split: option.splits)
  then show ?thesis
    by (rule on_first_count) (erule beneath_count, erule insertBefore_count)
qed

lemma showAlert_first:
  assumes "showAlert parse ty m doc = Done doc'"
  shows "first_match (by_class ''ajax-alert'') doc' = Some (alertDiv parse ty m)"
proof -
  let ?Q = "by_class ''ajax-alert''"
  let ?d = "remove_all ?Q doc"
  let ?f = "beneath (insertBefore (by_class ''d-flex'') (alertDiv parse ty m))"
  from assms have 1: "on_first main_container ?f ?d = Some (Done doc')"
    by (auto simp: showAlert_def Let_def split: option.splits)
  show ?thesis
  proof (rule on_first_first[OF 1 first_match_removed])
    fix t a l ks e'
    assume f: "?f (Element t a l ks) = Done e'" and n: "first_match ?Q [Element t a l ks] = None"
    from f obtain ks' where k: "insertBefore (by_class ''d-flex'') (alertDiv parse ty m) ks = Done ks'"
      "e' = Element t a l ks'"
      by (auto simp: map_outcome_Done)
    from n have q: "\<not> ?Q t a" "first_match ?Q ks = None"
      by (auto split: if_splits option.splits)
    from k(1) have "first_match ?Q ks' = Some (alertDiv parse ty m)"
      unfolding alertDiv_def by (rule insertBefore_first[OF _ q(2) alertDiv_marked])
    with k(2) q show "first_match ?Q [e'] = Some (alertDiv parse ty m)"
      by simp
  qed
qed

lemma showAlert_no_container:
  assumes "first_match main_container doc = None"
  shows "showAlert parse ty m doc = Thrown TypeError (remove_all (by_class ''ajax-alert'') doc)"
  using first_match_remove_all[OF assms, of "by_class ''ajax-alert''"]
  by (simp add: showAlert_def Let_def on_first_NoneI)

subsection \<open>Numbers\<close>

lemma js_lt_not_ge: "js_lt x (Finite 0) \<Longrightarrow> \<not> js_ge x (Finite 0)"
  by (cases x) (auto simp: js_lt_def js_ge_def)

lemma toFixed_negative: "js_lt x (Finite 0) \<Longrightarrow> toFixed x f = ''-'' @ toFixed (js_neg x) f"
  by (cases x) (auto simp: js_lt_def toFixed_def js_neg_def)

lemma toFixed_zero_2: "toFixed (Finite 0) 2 = ''0.00''"
  by code_simp

lemma minus_12_345_negative: "\<not> js_ge minus_12_345 (Finite 0)"
  by code_simp

lemma toFixed_minus_12_345: "toFixed minus_12_345 2 = ''-12.35''"
  by code_simp

subsection \<open>The writes of the handler\<close>

lemma write_pl_first:
  assumes "first_match (by_class ''profit-loss'') ks = Some (Element t a l c)"
  shows "\<exists>ks'. sequence (write_pl p) ks = Done ks' \<and>
           first_match (by_class ''profit-loss'') ks' =
             Some (Element t (set_attr ''class'' (plClass (profit_loss p) @ '' profit-loss'') a) l
                    [Text (plSign (profit_loss p) @ ''$'' @ toFixed (profit_loss p) 2)])"
proof -
  let ?s = "plSign (profit_loss p) @ ''$'' @ toFixed (profit_loss p) 2"
  from assign_first[OF assms, of "textContent ?s" t a l "[Text ?s]"]
  obtain ks1 where 1: "assign (by_class ''profit-loss'') (textContent ?s) ks = Done ks1"
    and 2: "first_match (by_class ''profit-loss'') ks1 = Some (Element t a l [Text ?s])"
    using first_match_Some[OF assms] by auto
  from assign_first[OF 2, of "className (plClass (profit_loss p) @ '' profit-loss'')"]
  obtain ks2 where "assign (by_class ''profit-loss'') (className (plClass (profit_loss p) @ '' profit-loss'')) ks1 = Done ks2"
    and "first_match (by_class ''profit-loss'') ks2 =
           Some (Element t (set_attr ''class'' (plClass (profit_loss p) @ '' profit-loss'') a) l [Text ?s])"
    using by_class_profit_loss by auto
  with 1 show ?thesis
    by (simp add: write_pl_def)
qed

lemma update_totals_first:
  assumes "update_totals t doc = Done doc'"
  shows "\<exists>tg a l. first_match (by_id ''totalPL'') doc' =
           Some (Element tg (set_attr ''class'' (''card-title '' @ plClass (total_profit_loss t)) a) l
                  [Text (totalPL_text t)])"
proof -
  let ?P = "by_id ''totalPL''"
  let ?cls = "''card-title '' @ plClass (total_profit_loss t)"
  from assms obtain d2 d3 where
    3: "assign ?P (textContent (totalPL_text t)) d2 = Done d3" and
    4: "assign ?P (className ?cls) d3 = Done doc'"
    by (auto simp: update_totals_def split: outcome.splits)
  from assign_Done[OF 3] first_match_Some obtain tg a l c
    where e: "first_match ?P d2 = Some (Element tg a l c)" and P: "?P tg a"
    by blast
  have ne: "totalPL_text t \<noteq> []"
    by (simp add: totalPL_text_def)
  have t1: "textContent (totalPL_text t) (Element tg a l c) = Element tg a l [Text (totalPL_text t)]"
    using ne by simp
  from assign_first[where g = "textContent (totalPL_text t)", OF e t1 P] 3
  have 5: "first_match ?P d3 = Some (Element tg a l [Text (totalPL_text t)])"
    using ne by simp
  have P': "?P tg (set_attr ''class'' ?cls a)"
    using P by (simp add: by_id_def map_of_set_attr_other)
  have t2: "className ?cls (Element tg a l [Text (totalPL_text t)]) =
              Element tg (set_attr ''class'' ?cls a) l [Text (totalPL_text t)]"
    by simp
  from assign_first[where g = "className ?cls", OF 5 t2 P'] 4
  have "first_match ?P doc' = Some (Element tg (set_attr ''class'' ?cls a) l [Text (totalPL_text t)])"
    by simp
  then show ?thesis
    by (intro exI)
qed

lemma update_row_steps:
  assumes "update_row p (Element t a l ks) = Done row'"
  shows "\<exists>k1 k2 k3 k4 t1 a1 l1 c1 t2 a2 l2 c2 t3 a3 l3 c3 t4 a4 l4 c4.
      row' = Element t a l k4
      \<and> assign (by_class ''current-price'') (textContent (''$'' @ toFixed (current_price p) 2)) ks = Done k1
      \<and> first_match (by_class ''current-price'') ks = Some (Element t1 a1 l1 c1)
      \<and> first_match (by_class ''current-price'') k1 =
          Some (Element t1 a1 l1 [Text (''$'' @ toFixed (current_price p) 2)])
      \<and> assign (by_class ''current-value'') (textContent (''$'' @ toFixed (current_value p) 2)) k1 = Done k2
      \<and> first_match (by_class ''current-value'') k1 = Some (Element t2 a2 l2 c2)
      \<and> first_match (by_class ''current-value'') k2 =
          Some (Element t2 a2 l2 [Text (''$'' @ toFixed (current_value p) 2)])
      \<and> sequence (write_pl p) k2 = Done k3
      \<and> first_match (by_class ''profit-loss'') k2 = Some (Element t3 a3 l3 c3)
      \<and> first_match (by_class ''profit-loss'') k3 =
          Some (Element t3 (set_attr ''class'' (plClass (profit_loss p) @ '' profit-loss'') a3) l3
                 [Text (plSign (profit_loss p) @ ''$'' @ toFixed (profit_loss p) 2)])
      \<and> sequence (write_percent p) k3 = Done k4
      \<and> first_match (by_class ''profit-loss-percent'') k3 = Some (Element t4 a4 l4 c4)
      \<and> first_match (by_class ''profit-loss-percent'') k4 =
          Some (Element t4 (set_attr ''class'' (plClass (profit_loss p) @ '' profit-loss-percent'') a4) l4
                 [Text (''('' @ plSign (profit_loss p) @ toFixed (profit_loss_percent p) 2 @ ''%)'')])
      \<and> plClass (profit_loss p) = (if js_ge (profit_loss p) (Finite 0) then ''profit'' else ''loss'')"
proof -
  from assms obtain k4 where r: "row' = Element t a l k4"
    and s: "sequence (write_cells p @ write_pl p @ write_percent p) ks = Done k4"
    by (auto simp: update_row_def map_outcome_Done)
  from s obtain k2 k3 where c: "sequence (write_cells p) ks = Done k2"
    and pl: "sequence (write_pl p) k2 = Done k3"
    and pc: "sequence (write_percent p) k3 = Done k4"
    by (auto simp: sequence_append split: outcome.splits)
  from c obtain k1 where
    1: "assign (by_class ''current-price'') (textContent (''$'' @ toFixed (current_price p) 2)) ks = Done k1"
    and 2: "assign (by_class ''current-value'') (textContent (''$'' @ toFixed (current_value p) 2)) k1 = Done k2"
    by (auto simp: write_cells_def split: outcome.splits)
  from assign_text_Done[OF 1] obtain t1 a1 l1 c1 where
    e1: "first_match (by_class ''current-price'') ks = Some (Element t1 a1 l1 c1)"
      "first_match (by_class ''current-price'') k1 =
          Some (Element t1 a1 l1 [Text (''$'' @ toFixed (current_price p) 2)])"
    by auto
  from assign_text_Done[OF 2] obtain t2 a2 l2 c2 where
    e2: "first_match (by_class ''current-value'') k1 = Some (Element t2 a2 l2 c2)"
      "first_match (by_class ''current-value'') k2 =
          Some (Element t2 a2 l2 [Text (''$'' @ toFixed (current_value p) 2)])"
    by auto
  from text_and_class_Done[OF pl[unfolded write_pl_def]] by_class_profit_loss
  obtain t3 a3 l3 c3 where
    e3: "first_match (by_class ''profit-loss'') k2 = Some (Element t3 a3 l3 c3)"
      "first_match (by_class ''profit-loss'') k3 =
          Some (Element t3 (set_attr ''class'' (plClass (profit_loss p) @ '' profit-loss'') a3) l3
                 [Text (plSign (profit_loss p) @ ''$'' @ toFixed (profit_loss p) 2)])"
    by auto
  from text_and_class_Done[OF pc[unfolded write_percent_def]] by_class_percent
  obtain t4 a4 l4 c4 where
    e4: "first_match (by_class ''profit-loss-percent'') k3 = Some (Element t4 a4 l4 c4)"
      "first_match (by_class ''profit-loss-percent'') k4 =
          Some (Element t4 (set_attr ''class'' (plClass (profit_loss p) @ '' profit-loss-percent'') a4) l4
                 [Text (''('' @ plSign (profit_loss p) @ toFixed (profit_loss_percent p) 2 @ ''%)'')])"
    by auto
  have "plClass (profit_loss p) = (if js_ge (profit_loss p) (Finite 0) then ''profit'' else ''loss'')"
    by (simp add: plClass_def)
  with r 1 2 pl pc e1 e2 e3 e4 show ?thesis
    by blast
qed

subsection \<open>The row query\<close>

lemma malformed_not_plain: "malformed_value v \<Longrightarrow> \<not> plain_value v"
  by (simp add: malformed_value_def plain_value_def)

lemma malformed_thrown:
  "malformed_value (pid p) \<Longrightarrow> update_portfolio css p doc = Thrown SyntaxError doc"
  by (simp add: update_portfolio_def malformed_not_plain)

text \<open>
  Two id texts that the engine reads. The selector for the id \<^verbatim>\<open>a\b\<close> is well formed and
  matches no row of the page: the entry is skipped, nothing is thrown. The id
  \<^verbatim>\<open>1"],tr[data-portfolio-id="1\<close> carries selector syntax: the text is a list of selectors
  that finds the row of id 1, which is updated as for the entry of id 1.
\<close>

lemma engine_examples:
  "update_portfolio example_engine escaped_entry page = Done page
   \<and> update_portfolio example_engine injected_entry page
       = update_portfolio example_engine loss_entry page
   \<and> update_portfolio example_engine loss_entry page \<noteq> Done page"
  by code_simp

section \<open>The claims\<close>

subsection \<open>The profit/loss cell of a row\<close>

text \<open>
  C1, as amended. For an entry with \<^verbatim>\<open>profit_loss = -12.345\<close> the sign prefix is empty and the
  minus sign comes from \<^verbatim>\<open>toFixed\<close>, after the dollar sign: lines 31 to 35 write the text
  \<^verbatim>\<open>$-12.35\<close> into the row's profit/loss element (the first element below the row with class
  \<^verbatim>\<open>profit-loss\<close>) and give it the loss class: its class attribute becomes
  \<^verbatim>\<open>loss profit-loss\<close>.
\<close>

theorem loss_written_dollar_first:
  assumes "profit_loss p = minus_12_345"
    and "first_match (by_class ''profit-loss'') ks = Some (Element t a l c)"
  shows "plSign (profit_loss p) = [] \<and>
         (\<exists>ks'. sequence (write_pl p) ks = Done ks' \<and>
            first_match (by_class ''profit-loss'') ks' =
              Some (Element t (set_attr ''class'' ''loss profit-loss'' a) l [Text ''$-12.35'']))"
proof -
  from write_pl_first[OF assms(2), of p] show ?thesis
    by (simp add: assms(1) plSign_def plClass_def minus_12_345_negative toFixed_minus_12_345)
qed

theorem loss_written_witness:
  "plSign (profit_loss loss_entry) = [] \<and>
   first_match (by_class ''profit-loss'') (state (sequence (write_pl loss_entry) (kids row1))) =
     Some (Element ''td'' [(''class'', ''loss profit-loss'')] False [Text ''$-12.35''])"
proof -
  have 1: "profit_loss loss_entry = minus_12_345"
    by (simp add: loss_entry_def)
  have 2: "first_match (by_class ''profit-loss'') (kids row1) =
      Some (Element ''td'' [(''class'', ''profit profit-loss'')] False [Text ''+$1.00''])"
    by code_simp
  from loss_written_dollar_first[OF 1 2] show ?thesis
    by auto
qed

text \<open>The text \<^verbatim>\<open>-$12.35\<close> that C1 states is not what is written.\<close>

theorem loss_text_counterexample:
  "first_match (by_class ''profit-loss'') (state (sequence (write_pl loss_entry) (kids row1))) =
     Some (Element ''td'' [(''class'', ''loss profit-loss'')] False [Text ''$-12.35''])
   \<and> first_match (by_class ''profit-loss'') (state (sequence (write_pl loss_entry) (kids row1))) \<noteq>
     Some (Element ''td'' [(''class'', ''loss profit-loss'')] False [Text ''-$12.35''])"
  by code_simp

text \<open>
  C8. For an entry with \<^verbatim>\<open>profit_loss = 0\<close> the sign prefix is \<^verbatim>\<open>+\<close>; lines 31 to 35 write the
  text \<^verbatim>\<open>+$0.00\<close> into the row's profit/loss element and give it the profit class: its class
  attribute becomes \<^verbatim>\<open>profit profit-loss\<close>, whatever it was, so that the element has the class
  \<^verbatim>\<open>profit\<close> and not the class \<^verbatim>\<open>loss\<close>. The witness is a cell that shows a loss before the
  write.
\<close>

theorem zero_profit_loss_written:
  assumes "profit_loss p = Finite 0"
    and "first_match (by_class ''profit-loss'') ks = Some (Element t a l c)"
  shows "plSign (profit_loss p) = ''+'' \<and>
         (\<exists>ks' a'. sequence (write_pl p) ks = Done ks' \<and>
            first_match (by_class ''profit-loss'') ks' = Some (Element t a' l [Text ''+$0.00'']) \<and>
            a' = set_attr ''class'' ''profit profit-loss'' a \<and>
            map_of a' ''class'' = Some ''profit profit-loss'' \<and>
            classList a' = [''profit'', ''profit-loss''] \<and>
            by_class ''profit'' t a' \<and> \<not> by_class ''loss'' t a')"
proof -
  have ge: "js_ge (Finite 0) (Finite 0)"
    by (simp add: js_ge_def)
  have cl: "plClass (profit_loss p) = ''profit''"
    by (simp add: assms(1) plClass_def ge)
  let ?a = "set_attr ''class'' ''profit profit-loss'' a"
  from write_pl_first[OF assms(2), of p] obtain ks' where
    w: "sequence (write_pl p) ks = Done ks'"
       "first_match (by_class ''profit-loss'') ks' = Some (Element t ?a l [Text ''+$0.00''])"
    by (auto simp: assms(1) plSign_def plClass_def ge toFixed_zero_2)
  have m: "map_of ?a ''class'' = Some ''profit profit-loss''"
    by (rule map_of_set_attr)
  have c: "classList ?a = [''profit'', ''profit-loss'']"
    using classList_profit_loss[of "profit_loss p" a] by (simp add: cl)
  have b: "by_class ''profit'' t ?a" "\<not> by_class ''loss'' t ?a"
    by (simp_all add: by_class_def c)
  have "plSign (profit_loss p) = ''+''"
    by (simp add: assms(1) plSign_def ge)
  with w m c b show ?thesis
    by blast
qed

theorem zero_profit_loss_witness:
  "first_match (by_class ''profit-loss'') (kids losing_row) =
     Some (Element ''td'' [(''class'', ''loss profit-loss'')] False [Text ''$-0.50''])
   \<and> by_class ''loss'' ''td'' [(''class'', ''loss profit-loss'')]
   \<and> plSign (profit_loss zero_entry) = ''+''
   \<and> sequence (write_pl zero_entry) (kids losing_row) = Done
       [Element ''td'' [] False [Text ''ETH''],
        Element ''td'' [(''class'', ''current-price'')] False [Text ''$1.00''],
        Element ''td'' [(''class'', ''current-value'')] False [Text ''$0.50''],
        Element ''td'' [(''class'', ''profit profit-loss'')] False [Text ''+$0.00''],
        Element ''td'' [(''class'', ''loss profit-loss-percent'')] False [Text ''(-50.00%)'']]
   \<and> (\<exists>ks' a'. sequence (write_pl zero_entry) (kids losing_row) = Done ks' \<and>
         first_match (by_class ''profit-loss'') ks' = Some (Element ''td'' a' False [Text ''+$0.00'']) \<and>
         a' = set_attr ''class'' ''profit profit-loss'' [(''class'', ''loss profit-loss'')] \<and>
         map_of a' ''class'' = Some ''profit profit-loss'' \<and>
         classList a' = [''profit'', ''profit-loss''] \<and>
         by_class ''profit'' ''td'' a' \<and> \<not> by_class ''loss'' ''td'' a')"
proof -
  have 1: "profit_loss zero_entry = Finite 0"
    by (simp add: zero_entry_def)
  have 2: "first_match (by_class ''profit-loss'') (kids losing_row) =
      Some (Element ''td'' [(''class'', ''loss profit-loss'')] False [Text ''$-0.50''])"
    by code_simp
  have 3: "sequence (write_pl zero_entry) (kids losing_row) = Done
       [Element ''td'' [] False [Text ''ETH''],
        Element ''td'' [(''class'', ''current-price'')] False [Text ''$1.00''],
        Element ''td'' [(''class'', ''current-value'')] False [Text ''$0.50''],
        Element ''td'' [(''class'', ''profit profit-loss'')] False [Text ''+$0.00''],
        Element ''td'' [(''class'', ''loss profit-loss-percent'')] False [Text ''(-50.00%)'']]"
    by code_simp
  have 4: "by_class ''loss'' ''td'' [(''class'', ''loss profit-loss'')]"
    by code_simp
  from zero_profit_loss_written[OF 1 2] 2 3 4 show ?thesis
    by blast
qed

subsection \<open>The four cells of a row\<close>

text \<open>
  C3, as amended. For an entry whose id text is plain (no double quote, backslash, line
  break or NUL: every number is), whose id matches a row and whose update completes, the
  handler has assigned, in this order and each to the first element below the row that
  matches at that moment: the price text to \<^verbatim>\<open>.current-price\<close>, the value text to
  \<^verbatim>\<open>.current-value\<close>, the profit/loss text and class to \<^verbatim>\<open>.profit-loss\<close>, the percent text and
  class to \<^verbatim>\<open>.profit-loss-percent\<close>. The class that tells profit from loss (\<^verbatim>\<open>profit\<close> when
  \<^verbatim>\<open>profit_loss >= 0\<close>, else \<^verbatim>\<open>loss\<close>) is set on the last two only, whose class lists become
  that class and the marker class; the price and value elements keep their attributes. The
  witness is a losing entry on a row that shows a profit.
\<close>

theorem row_update_steps:
  assumes "plain_value (pid p)"
    and "first_match (portfolio_row (pid p)) doc = Some (Element t a l ks)"
    and "update_portfolio css p doc = Done doc'"
  shows "\<exists>k1 k2 k3 k4 t1 a1 l1 c1 t2 a2 l2 c2 t3 a3 l3 c3 t4 a4 l4 c4.
      first_match (portfolio_row (pid p)) doc' = Some (Element t a l k4)
      \<and> assign (by_class ''current-price'') (textContent (''$'' @ toFixed (current_price p) 2)) ks = Done k1
      \<and> first_match (by_class ''current-price'') ks = Some (Element t1 a1 l1 c1)
      \<and> first_match (by_class ''current-price'') k1 =
          Some (Element t1 a1 l1 [Text (''$'' @ toFixed (current_price p) 2)])
      \<and> assign (by_class ''current-value'') (textContent (''$'' @ toFixed (current_value p) 2)) k1 = Done k2
      \<and> first_match (by_class ''current-value'') k1 = Some (Element t2 a2 l2 c2)
      \<and> first_match (by_class ''current-value'') k2 =
          Some (Element t2 a2 l2 [Text (''$'' @ toFixed (current_value p) 2)])
      \<and> sequence (write_pl p) k2 = Done k3
      \<and> first_match (by_class ''profit-loss'') k2 = Some (Element t3 a3 l3 c3)
      \<and> first_match (by_class ''profit-loss'') k3 =
          Some (Element t3 (set_attr ''class'' (plClass (profit_loss p) @ '' profit-loss'') a3) l3
                 [Text (plSign (profit_loss p) @ ''$'' @ toFixed (profit_loss p) 2)])
      \<and> classList (set_attr ''class'' (plClass (profit_loss p) @ '' profit-loss'') a3)
          = [plClass (profit_loss p), ''profit-loss'']
      \<and> sequence (write_percent p) k3 = Done k4
      \<and> first_match (by_class ''profit-loss-percent'') k3 = Some (Element t4 a4 l4 c4)
      \<and> first_match (by_class ''profit-loss-percent'') k4 =
          Some (Element t4 (set_attr ''class'' (plClass (profit_loss p) @ '' profit-loss-percent'') a4) l4
                 [Text (''('' @ plSign (profit_loss p) @ toFixed (profit_loss_percent p) 2 @ ''%)'')])
      \<and> classList (set_attr ''class'' (plClass (profit_loss p) @ '' profit-loss-percent'') a4)
          = [plClass (profit_loss p), ''profit-loss-percent'']
      \<and> plClass (profit_loss p) = (if js_ge (profit_loss p) (Finite 0) then ''profit'' else ''loss'')"
proof -
  let ?P = "portfolio_row (pid p)"
  have "on_first ?P (update_row p) doc \<noteq> None"
    using assms(2) by (simp add: on_first_None)
  with assms(1,3) have o: "on_first ?P (update_row p) doc = Some (Done doc')"
    by (auto simp: update_portfolio_def split: if_splits option.splits)
  from on_first_Done_conv[OF assms(2) o] obtain row' where
    u: "update_row p (Element t a l ks) = Done row'"
    by blast
  from update_row_steps[OF u] obtain k1 k2 k3 k4 t1 a1 l1 c1 t2 a2 l2 c2 t3 a3 l3 c3 t4 a4 l4 c4 where
    st: "row' = Element t a l k4"
      "assign (by_class ''current-price'') (textContent (''$'' @ toFixed (current_price p) 2)) ks = Done k1"
      "first_match (by_class ''current-price'') ks = Some (Element t1 a1 l1 c1)"
      "first_match (by_class ''current-price'') k1 =
          Some (Element t1 a1 l1 [Text (''$'' @ toFixed (current_price p) 2)])"
      "assign (by_class ''current-value'') (textContent (''$'' @ toFixed (current_value p) 2)) k1 = Done k2"
      "first_match (by_class ''current-value'') k1 = Some (Element t2 a2 l2 c2)"
      "first_match (by_class ''current-value'') k2 =
          Some (Element t2 a2 l2 [Text (''$'' @ toFixed (current_value p) 2)])"
      "sequence (write_pl p) k2 = Done k3"
      "first_match (by_class ''profit-loss'') k2 = Some (Element t3 a3 l3 c3)"
      "first_match (by_class ''profit-loss'') k3 =
          Some (Element t3 (set_attr ''class'' (plClass (profit_loss p) @ '' profit-loss'') a3) l3
                 [Text (plSign (profit_loss p) @ ''$'' @ toFixed (profit_loss p) 2)])"
      "sequence (write_percent p) k3 = Done k4"
      "first_match (by_class ''profit-loss-percent'') k3 = Some (Element t4 a4 l4 c4)"
      "first_match (by_class ''profit-loss-percent'') k4 =
          Some (Element t4 (set_attr ''class'' (plClass (profit_loss p) @ '' profit-loss-percent'') a4) l4
                 [Text (''('' @ plSign (profit_loss p) @ toFixed (profit_loss_percent p) 2 @ ''%)'')])"
      "plClass (profit_loss p) = (if js_ge (profit_loss p) (Finite 0) then ''profit'' else ''loss'')"
    by blast
  from first_match_Some[OF assms(2)] have P: "?P t a" by simp
  from on_first_Done[where f = "update_row p", OF assms(2) u[unfolded st(1)] P] o
  have "first_match ?P doc' = Some (Element t a l k4)"
    by simp
  with st(2-) classList_profit_loss[of "profit_loss p" a3] classList_percent[of "profit_loss p" a4]
  show ?thesis
    by blast
qed

theorem row_update_steps_witness:
  "plain_value (pid loss_entry)
   \<and> first_match (portfolio_row (pid loss_entry)) page = Some row1
   \<and> update_portfolio example_engine loss_entry page
       = Done (state (update_portfolio example_engine loss_entry page))
   \<and> first_match (portfolio_row (pid loss_entry)) (state (update_portfolio example_engine loss_entry page)) =
       Some (Element ''tr'' [(''data-portfolio-id'', ''1'')] False
         [Element ''td'' [] False [Text ''BTC''],
          Element ''td'' [(''class'', ''current-price'')] False [Text ''$3.00''],
          Element ''td'' [(''class'', ''current-value'')] False [Text ''$4.00''],
          Element ''td'' [(''class'', ''loss profit-loss'')] False [Text ''$-12.35''],
          Element ''td'' [(''class'', ''loss profit-loss-percent'')] False [Text ''(-5.00%)'']])
   \<and> (\<exists>k1 k2 k3 k4 t1 a1 l1 c1 t2 a2 l2 c2 t3 a3 l3 c3 t4 a4 l4 c4.
      first_match (portfolio_row (pid loss_entry)) (state (update_portfolio example_engine loss_entry page)) = Some (Element ''tr'' [(''data-portfolio-id'', ''1'')] False k4)
      \<and> assign (by_class ''current-price'') (textContent (''$'' @ toFixed (current_price loss_entry) 2)) (kids row1) = Done k1
      \<and> first_match (by_class ''current-price'') (kids row1) = Some (Element t1 a1 l1 c1)
      \<and> first_match (by_class ''current-price'') k1 =
          Some (Element t1 a1 l1 [Text (''$'' @ toFixed (current_price loss_entry) 2)])
      \<and> assign (by_class ''current-value'') (textContent (''$'' @ toFixed (current_value loss_entry) 2)) k1 = Done k2
      \<and> first_match (by_class ''current-value'') k1 = Some (Element t2 a2 l2 c2)
      \<and> first_match (by_class ''current-value'') k2 =
          Some (Element t2 a2 l2 [Text (''$'' @ toFixed (current_value loss_entry) 2)])
      \<and> sequence (write_pl loss_entry) k2 = Done k3
      \<and> first_match (by_class ''profit-loss'') k2 = Some (Element t3 a3 l3 c3)
      \<and> first_match (by_class ''profit-loss'') k3 =
          Some (Element t3 (set_attr ''class'' (plClass (profit_loss loss_entry) @ '' profit-loss'') a3) l3
                 [Text (plSign (profit_loss loss_entry) @ ''$'' @ toFixed (profit_loss loss_entry) 2)])
      \<and> classList (set_attr ''class'' (plClass (profit_loss loss_entry) @ '' profit-loss'') a3)
          = [plClass (profit_loss loss_entry), ''profit-loss'']
      \<and> sequence (write_percent loss_entry) k3 = Done k4
      \<and> first_match (by_class ''profit-loss-percent'') k3 = Some (Element t4 a4 l4 c4)
      \<and> first_match (by_class ''profit-loss-percent'') k4 =
          Some (Element t4 (set_attr ''class'' (plClass (profit_loss loss_entry) @ '' profit-loss-percent'') a4) l4
                 [Text (''('' @ plSign (profit_loss loss_entry) @ toFixed (profit_loss_percent loss_entry) 2 @ ''%)'')])
      \<and> classList (set_attr ''class'' (plClass (profit_loss loss_entry) @ '' profit-loss-percent'') a4)
          = [plClass (profit_loss loss_entry), ''profit-loss-percent'']
      \<and> plClass (profit_loss loss_entry) = (if js_ge (profit_loss loss_entry) (Finite 0) then ''profit'' else ''loss''))"
proof -
  have 0: "plain_value (pid loss_entry)"
    by code_simp
  have 1: "first_match (portfolio_row (pid loss_entry)) page =
             Some (Element ''tr'' [(''data-portfolio-id'', ''1'')] False (kids row1))"
    by code_simp
  have 2: "update_portfolio example_engine loss_entry page
             = Done (state (update_portfolio example_engine loss_entry page))"
    by code_simp
  have 3: "first_match (portfolio_row (pid loss_entry)) page = Some row1"
    by code_simp
  have 4: "first_match (portfolio_row (pid loss_entry)) (state (update_portfolio example_engine loss_entry page)) =
       Some (Element ''tr'' [(''data-portfolio-id'', ''1'')] False
         [Element ''td'' [] False [Text ''BTC''],
          Element ''td'' [(''class'', ''current-price'')] False [Text ''$3.00''],
          Element ''td'' [(''class'', ''current-value'')] False [Text ''$4.00''],
          Element ''td'' [(''class'', ''loss profit-loss'')] False [Text ''$-12.35''],
          Element ''td'' [(''class'', ''loss profit-loss-percent'')] False [Text ''(-5.00%)'']])"
    by code_simp
  from row_update_steps[OF 0 1 2] 0 2 3 4 show ?thesis
    by blast
qed

text \<open>
  C3 as stated gives all four cells a polarity class. The price and value cells of a
  gaining entry carry no \<^verbatim>\<open>profit\<close> class after the update.
\<close>

theorem price_cell_class_counterexample:
  "js_ge (profit_loss zero_entry) (Finite 0)
   \<and> first_match (portfolio_row (pid zero_entry)) page = Some row1
   \<and> first_match (by_class ''current-price'') (state (update_portfolio example_engine zero_entry page)) =
       Some (Element ''td'' [(''class'', ''current-price'')] False [Text ''$3.00''])
   \<and> \<not> by_class ''profit'' ''td'' [(''class'', ''current-price'')]
   \<and> first_match (by_class ''current-value'') (state (update_portfolio example_engine zero_entry page)) =
       Some (Element ''td'' [(''class'', ''current-value'')] False [Text ''$4.00''])
   \<and> \<not> by_class ''profit'' ''td'' [(''class'', ''current-value'')]"
  by code_simp

subsection \<open>The totals\<close>

text \<open>
  C9. In the text of \<^verbatim>\<open>totalPL\<close> the sign prefix of the percent is the one of
  \<^verbatim>\<open>total_profit_loss\<close>: when \<^verbatim>\<open>total_profit_loss >= 0\<close> the percent is printed after a \<^verbatim>\<open>+\<close>,
  also when the percent is negative, which gives \<^verbatim>\<open>(+-N%)\<close>; when \<^verbatim>\<open>total_profit_loss < 0\<close>
  the percent has no prefix, whatever its sign. The text is what lines 20 to 23 leave in
  the \<^verbatim>\<open>totalPL\<close> element.
\<close>

theorem totalPL_sign_from_profit_loss:
  "(js_ge (total_profit_loss t) (Finite 0) \<longrightarrow>
      totalPL_text t = ''+$'' @ toFixed (total_profit_loss t) 2
                       @ '' (+'' @ toFixed (total_profit_loss_percent t) 2 @ ''%)'')
   \<and> (js_ge (total_profit_loss t) (Finite 0) \<and> js_lt (total_profit_loss_percent t) (Finite 0) \<longrightarrow>
      totalPL_text t = ''+$'' @ toFixed (total_profit_loss t) 2
                       @ '' (+-'' @ toFixed (js_neg (total_profit_loss_percent t)) 2 @ ''%)'')
   \<and> (js_lt (total_profit_loss t) (Finite 0) \<longrightarrow>
      totalPL_text t = ''$'' @ toFixed (total_profit_loss t) 2
                       @ '' ('' @ toFixed (total_profit_loss_percent t) 2 @ ''%)'')
   \<and> (update_totals t doc = Done doc' \<longrightarrow>
      (\<exists>tg a l. first_match (by_id ''totalPL'') doc' = Some (Element tg a l [Text (totalPL_text t)])))"
proof (intro conjI impI)
  assume "js_ge (total_profit_loss t) (Finite 0)"
  then show "totalPL_text t = ''+$'' @ toFixed (total_profit_loss t) 2
                       @ '' (+'' @ toFixed (total_profit_loss_percent t) 2 @ ''%)''"
    by (simp add: totalPL_text_def plSign_def)
next
  assume "js_ge (total_profit_loss t) (Finite 0) \<and> js_lt (total_profit_loss_percent t) (Finite 0)"
  then show "totalPL_text t = ''+$'' @ toFixed (total_profit_loss t) 2
                       @ '' (+-'' @ toFixed (js_neg (total_profit_loss_percent t)) 2 @ ''%)''"
    by (simp add: totalPL_text_def plSign_def toFixed_negative)
next
  assume "js_lt (total_profit_loss t) (Finite 0)"
  then show "totalPL_text t = ''$'' @ toFixed (total_profit_loss t) 2
                       @ '' ('' @ toFixed (total_profit_loss_percent t) 2 @ ''%)''"
    by (simp add: totalPL_text_def plSign_def js_lt_not_ge)
next
  assume "update_totals t doc = Done doc'"
  from update_totals_first[OF this] obtain tg a l where
    "first_match (by_id ''totalPL'') doc' =
       Some (Element tg (set_attr ''class'' (''card-title '' @ plClass (total_profit_loss t)) a) l
              [Text (totalPL_text t)])"
    by blast
  then show "\<exists>tg a l. first_match (by_id ''totalPL'') doc' = Some (Element tg a l [Text (totalPL_text t)])"
    by (intro exI)
qed

theorem totalPL_sign_witness:
  "totalPL_text some_totals = ''+$5.00 (+-3.00%)''
   \<and> totalPL_text loss_totals = ''$-5.00 (3.00%)''
   \<and> first_match (by_id ''totalPL'') (state (update_totals some_totals page)) =
       Some (Element ''h5'' [(''id'', ''totalPL''), (''class'', ''card-title profit'')] False
              [Text (totalPL_text some_totals)])"
proof -
  have 1: "js_ge (total_profit_loss some_totals) (Finite 0)
           \<and> js_lt (total_profit_loss_percent some_totals) (Finite 0)"
    by code_simp
  have 2: "js_lt (total_profit_loss loss_totals) (Finite 0)"
    by code_simp
  have 3: "toFixed (total_profit_loss some_totals) 2 = ''5.00''"
    "toFixed (js_neg (total_profit_loss_percent some_totals)) 2 = ''3.00''"
    "toFixed (total_profit_loss loss_totals) 2 = ''-5.00''"
    "toFixed (total_profit_loss_percent loss_totals) 2 = ''3.00''"
    by code_simp+
  have 4: "update_totals some_totals page = Done (state (update_totals some_totals page))"
    by code_simp
  have 5: "first_match (by_id ''totalPL'') (state (update_totals some_totals page)) =
       Some (Element ''h5'' [(''id'', ''totalPL''), (''class'', ''card-title profit'')] False
              [Text ''+$5.00 (+-3.00%)''])"
    by code_simp
  note inst = totalPL_sign_from_profit_loss[of some_totals page "state (update_totals some_totals page)"]
  from inst 1
  have a: "totalPL_text some_totals = ''+$'' @ toFixed (total_profit_loss some_totals) 2
                       @ '' (+-'' @ toFixed (js_neg (total_profit_loss_percent some_totals)) 2 @ ''%)''"
    by blast
  from totalPL_sign_from_profit_loss[of loss_totals page page] 2
  have b: "totalPL_text loss_totals = ''$'' @ toFixed (total_profit_loss loss_totals) 2
                       @ '' ('' @ toFixed (total_profit_loss_percent loss_totals) 2 @ ''%)''"
    by blast
  from inst 4 obtain tg av l where
    "first_match (by_id ''totalPL'') (state (update_totals some_totals page)) =
       Some (Element tg av l [Text (totalPL_text some_totals)])"
    by blast
  with 5 have c: "first_match (by_id ''totalPL'') (state (update_totals some_totals page)) =
       Some (Element ''h5'' [(''id'', ''totalPL''), (''class'', ''card-title profit'')] False
              [Text (totalPL_text some_totals)])"
    by simp
  have a': "totalPL_text some_totals = ''+$5.00 (+-3.00%)''"
    unfolding a 3 by simp
  have b': "totalPL_text loss_totals = ''$-5.00 (3.00%)''"
    unfolding b 3 by simp
  from a' b' c show ?thesis
    by blast
qed

subsection \<open>The alert presenter\<close>

text \<open>
  C5, as amended. After a call of \<^verbatim>\<open>showAlert\<close> that completes, exactly one element with the
  marker class \<^verbatim>\<open>ajax-alert\<close> is in the document, provided the markup of the message holds
  none: the call removes every marker-class element, then inserts the new alert. This
  holds for any document, so also for the one a first call has left (the witness).
\<close>

theorem showAlert_leaves_one_alert:
  assumes "showAlert parse ty m doc = Done doc'"
    and "count_matches (by_class ''ajax-alert'') (map create (parse (alert_markup m))) = 0"
  shows "count_matches (by_class ''ajax-alert'') doc' = 1"
  using showAlert_count[OF assms(1), of "by_class ''ajax-alert''"] assms(2)
  by (simp add: count_remove_all count_alertDiv)

theorem showAlert_twice_witness:
  "showAlert template_parser ''warning'' ''X'' (state (showAlert template_parser ''danger'' ''Y'' page))
     = Done (state (showAlert template_parser ''warning'' ''X''
                (state (showAlert template_parser ''danger'' ''Y'' page))))
   \<and> count_matches (by_class ''ajax-alert'') (map create (template_parser (alert_markup ''X''))) = 0
   \<and> count_matches (by_class ''ajax-alert'')
        (state (showAlert template_parser ''warning'' ''X''
           (state (showAlert template_parser ''danger'' ''Y'' page)))) = 1"
proof -
  have 1: "showAlert template_parser ''warning'' ''X'' (state (showAlert template_parser ''danger'' ''Y'' page))
     = Done (state (showAlert template_parser ''warning'' ''X''
                (state (showAlert template_parser ''danger'' ''Y'' page))))"
    by code_simp
  have 2: "count_matches (by_class ''ajax-alert'') (map create (template_parser (alert_markup ''X''))) = 0"
    by code_simp
  from showAlert_leaves_one_alert[OF 1 2] 1 2 show ?thesis
    by blast
qed

text \<open>
  C5 as stated covers every call. On a page without \<^verbatim>\<open>main.container\<close> the call throws
  after it has removed the alert that was shown: none is left.
\<close>

theorem showAlert_no_alert_counterexample:
  "count_matches (by_class ''ajax-alert'') page_without_container = 1
   \<and> count_matches (by_class ''ajax-alert'')
        (state (showAlert template_parser ''danger'' failure_message page_without_container)) = 0"
  by code_simp

text \<open>
  C10, as amended. \<^verbatim>\<open>showAlert\<close> removes the marker-class alerts before it looks for the
  container. When the document has no \<^verbatim>\<open>main.container\<close>, the call throws a TypeError after
  the removal and no alert is left. When the container is there and holds no \<^verbatim>\<open>.d-flex\<close>
  element, the call does not throw: \<^verbatim>\<open>insertBefore\<close> gets \<^verbatim>\<open>null\<close> as its reference and
  appends the alert as the last child of the container.
\<close>

theorem showAlert_container_absent:
  "(first_match main_container doc = None \<longrightarrow>
      showAlert parse ty m doc = Thrown TypeError (remove_all (by_class ''ajax-alert'') doc)
      \<and> count_matches (by_class ''ajax-alert'') (remove_all (by_class ''ajax-alert'') doc) = 0)
   \<and> (first_match main_container (remove_all (by_class ''ajax-alert'') doc) = Some (Element t a l ks)
        \<and> first_match (by_class ''d-flex'') ks = None \<longrightarrow>
      (\<exists>doc'. showAlert parse ty m doc = Done doc'
         \<and> first_match main_container doc' = Some (Element t a l (ks @ [alertDiv parse ty m]))))"
proof (intro conjI impI)
  assume "first_match main_container doc = None"
  then show "showAlert parse ty m doc = Thrown TypeError (remove_all (by_class ''ajax-alert'') doc)"
    by (rule showAlert_no_container)
next
  show "count_matches (by_class ''ajax-alert'') (remove_all (by_class ''ajax-alert'') doc) = 0"
    by (rule count_remove_all)
next
  let ?d = "remove_all (by_class ''ajax-alert'') doc"
  let ?f = "beneath (insertBefore (by_class ''d-flex'') (alertDiv parse ty m))"
  assume "first_match main_container ?d = Some (Element t a l ks)
          \<and> first_match (by_class ''d-flex'') ks = None"
  then have c: "first_match main_container ?d = Some (Element t a l ks)"
    and k: "first_match (by_class ''d-flex'') ks = None"
    by simp_all
  from first_match_Some[OF c] have P: "main_container t a" by simp
  have f: "?f (Element t a l ks) = Done (Element t a l (ks @ [alertDiv parse ty m]))"
    by (simp add: insertBefore_absent[OF k])
  from on_first_Done[where f = ?f, OF c f P] obtain doc' where
    "on_first main_container ?f ?d = Some (Done doc')"
    "first_match main_container doc' = Some (Element t a l (ks @ [alertDiv parse ty m]))"
    by blast
  then show "\<exists>doc'. showAlert parse ty m doc = Done doc'
         \<and> first_match main_container doc' = Some (Element t a l (ks @ [alertDiv parse ty m]))"
    by (simp add: showAlert_def Let_def)
qed

theorem showAlert_container_absent_witness:
  "first_match main_container page_without_container = None
   \<and> showAlert template_parser ''warning'' ''X'' page_without_container
       = Thrown TypeError (remove_all (by_class ''ajax-alert'') page_without_container)
   \<and> count_matches (by_class ''ajax-alert'') (remove_all (by_class ''ajax-alert'') page_without_container) = 0
   \<and> first_match main_container (remove_all (by_class ''ajax-alert'') page_without_anchor)
       = Some (Element ''main'' [(''class'', ''container'')] False (refresh_button # cards))
   \<and> first_match (by_class ''d-flex'') (refresh_button # cards) = None
   \<and> first_match main_container (state (showAlert template_parser ''warning'' ''X'' page_without_anchor))
       = Some (Element ''main'' [(''class'', ''container'')] False
                (refresh_button # cards @ [alertDiv template_parser ''warning'' ''X'']))"
proof -
  have 1: "first_match main_container page_without_container = None"
    by code_simp
  have 2: "first_match main_container (remove_all (by_class ''ajax-alert'') page_without_anchor)
       = Some (Element ''main'' [(''class'', ''container'')] False (refresh_button # cards))"
    by code_simp
  have 3: "first_match (by_class ''d-flex'') (refresh_button # cards) = None"
    by code_simp
  note a = showAlert_container_absent[of page_without_container template_parser "''warning''" "''X''"
      "''main''" "[(''class'', ''container'')]" False "refresh_button # cards"]
  note b = showAlert_container_absent[of page_without_anchor template_parser "''warning''" "''X''"
      "''main''" "[(''class'', ''container'')]" False "refresh_button # cards"]
  from a 1 have 4: "showAlert template_parser ''warning'' ''X'' page_without_container
       = Thrown TypeError (remove_all (by_class ''ajax-alert'') page_without_container)"
    and 5: "count_matches (by_class ''ajax-alert'') (remove_all (by_class ''ajax-alert'') page_without_container) = 0"
    by blast+
  from b 2 3 obtain doc' where "showAlert template_parser ''warning'' ''X'' page_without_anchor = Done doc'"
    "first_match main_container doc' = Some (Element ''main'' [(''class'', ''container'')] False
                ((refresh_button # cards) @ [alertDiv template_parser ''warning'' ''X'']))"
    by blast
  then have 6: "first_match main_container (state (showAlert template_parser ''warning'' ''X'' page_without_anchor))
       = Some (Element ''main'' [(''class'', ''container'')] False
                (refresh_button # cards @ [alertDiv template_parser ''warning'' ''X'']))"
    by simp
  from 1 2 3 4 5 6 show ?thesis
    by blast
qed

text \<open>
  C10 as stated has the call fail also when only the anchor is absent. It completes, and
  the alert is on the page.
\<close>

theorem showAlert_anchor_absent_counterexample:
  "first_match (by_class ''d-flex'') page_without_anchor = None
   \<and> showAlert template_parser ''warning'' ''X'' page_without_anchor =
       Done [Element ''html'' [] False
         [Element ''body'' [] False
           [Element ''main'' [(''class'', ''container'')] False
             (refresh_button # cards @
              [Element ''div''
                 [(''class'', ''alert alert-warning alert-dismissible fade show ajax-alert''),
                  (''role'', ''alert'')] False
                 (map create (template_parser (alert_markup ''X'')))])]]]"
  by code_simp

subsection \<open>The response callback\<close>

text \<open>
  C4, as amended. For a response whose \<^verbatim>\<open>error\<close> field is a non-empty string \<^verbatim>\<open>X\<close>, when the
  call of \<^verbatim>\<open>showAlert\<close> completes: the document then holds the new alert, of class
  \<^verbatim>\<open>alert-warning\<close>, whose content is parsed from markup that contains \<^verbatim>\<open>X\<close>; and the
  callback goes on exactly as it does for the same response without the field, from the
  document with the alert: totals, rows, button.
\<close>

theorem warning_then_updates:
  assumes "error data = Some X" and "X \<noteq> []"
    and "showAlert parse ''warning'' X doc = Done doc1"
  shows "first_match (by_class ''ajax-alert'') doc1 =
           Some (Element ''div''
                  [(''class'', ''alert alert-warning alert-dismissible fade show ajax-alert''),
                   (''role'', ''alert'')] False
                  (map create (parse (alert_markup X))))
         \<and> (\<exists>u v. alert_markup X = u @ X @ v)
         \<and> on_data parse css data doc = on_data parse css (data\<lparr>error := None\<rparr>) doc1"
proof (intro conjI)
  from showAlert_first[OF assms(3)]
  show "first_match (by_class ''ajax-alert'') doc1 =
           Some (Element ''div''
                  [(''class'', ''alert alert-warning alert-dismissible fade show ajax-alert''),
                   (''role'', ''alert'')] False
                  (map create (parse (alert_markup X))))"
    by (simp add: alertDiv_def)
next
  have "alert_markup X = (CHR 0x0A # ''        '') @ X @
      (CHR 0x0A # ''        <button type=\"button\" class=\"btn-close\" data-bs-dismiss=\"alert\"></button>''
       @ CHR 0x0A # ''    '')"
    by (simp add: alert_markup_def)
  then show "\<exists>u v. alert_markup X = u @ X @ v"
    by blast
next
  show "on_data parse css data doc = on_data parse css (data\<lparr>error := None\<rparr>) doc1"
    using assms by (simp add: on_data_def prologue_def truthy_def)
qed

theorem warning_then_updates_witness:
  "first_match (by_class ''ajax-alert'') (state (showAlert template_parser ''warning'' ''X'' page)) =
     Some (Element ''div''
            [(''class'', ''alert alert-warning alert-dismissible fade show ajax-alert''),
             (''role'', ''alert'')] False
            (map create (template_parser (alert_markup ''X''))))
   \<and> on_data template_parser example_engine
         \<lparr>error = Some ''X'', totals = some_totals, portfolios = [loss_entry]\<rparr> page
       = on_data template_parser example_engine
           \<lparr>error = None, totals = some_totals, portfolios = [loss_entry]\<rparr>
           (state (showAlert template_parser ''warning'' ''X'' page))
   \<and> first_match (by_id ''totalInvested'')
         (state (on_data template_parser example_engine
                   \<lparr>error = Some ''X'', totals = some_totals, portfolios = [loss_entry]\<rparr> page)) =
       Some (Element ''h5'' [(''id'', ''totalInvested'')] False [Text ''$100.00''])"
proof -
  let ?data = "\<lparr>error = Some ''X'', totals = some_totals, portfolios = [loss_entry]\<rparr>"
  have 1: "error ?data = Some ''X''" and 2: "''X'' \<noteq> []"
    by simp_all
  have 3: "showAlert template_parser ''warning'' ''X'' page
             = Done (state (showAlert template_parser ''warning'' ''X'' page))"
    by code_simp
  have 4: "first_match (by_id ''totalInvested'') (state (on_data template_parser example_engine ?data page)) =
       Some (Element ''h5'' [(''id'', ''totalInvested'')] False [Text ''$100.00''])"
    by code_simp
  from warning_then_updates[OF 1 2 3, of example_engine] 4 show ?thesis
    by simp
qed

text \<open>
  C4 as stated covers every value of the field. The empty string is falsy in line 11: no
  alert is created.
\<close>

theorem empty_error_counterexample:
  "error \<lparr>error = Some [], totals = some_totals, portfolios = [loss_entry]\<rparr> = Some []
   \<and> count_matches (by_class ''ajax-alert'')
        (state (on_data template_parser example_engine
                  \<lparr>error = Some [], totals = some_totals, portfolios = [loss_entry]\<rparr> page)) = 0"
  by code_simp

text \<open>
  C6, as amended. For an entry whose id text has no double quote, backslash, line break or
  NUL and matches no row when the entry is processed, the callback of \<^verbatim>\<open>forEach\<close> changes
  nothing, and the whole response callback ends as it does for the response without this
  entry.
\<close>

theorem unmatched_entry_skipped:
  assumes "plain_value (pid p)"
    and "sequence (prologue parse data @ map (update_portfolio css) ps) doc = Done d"
    and "first_match (portfolio_row (pid p)) d = None"
  shows "update_portfolio css p d = Done d
         \<and> on_data parse css (data\<lparr>portfolios := ps @ p # qs\<rparr>) doc
             = on_data parse css (data\<lparr>portfolios := ps @ qs\<rparr>) doc"
proof -
  have skip: "update_portfolio css p d = Done d"
    using assms(1,3) by (simp add: update_portfolio_def on_first_NoneI)
  have pro: "prologue parse (data\<lparr>portfolios := x\<rparr>) = prologue parse data" for x
    by (simp add: prologue_def)
  let ?rest = "map (update_portfolio css) qs @ [restore_button]"
  let ?pre = "prologue parse data @ map (update_portfolio css) ps"
  have "on_data parse css (data\<lparr>portfolios := ps @ p # qs\<rparr>) doc
          = sequence (?pre @ update_portfolio css p # ?rest) doc"
    by (simp add: on_data_def pro)
  also have "\<dots> = sequence ?rest d"
    unfolding sequence_append[of ?pre]
    using assms(2) skip by simp
  also have "\<dots> = sequence (?pre @ ?rest) doc"
    unfolding sequence_append[of ?pre]
    using assms(2) by simp
  also have "\<dots> = on_data parse css (data\<lparr>portfolios := ps @ qs\<rparr>) doc"
    by (simp add: on_data_def pro)
  finally show ?thesis
    using skip by simp
qed

theorem unmatched_entry_witness:
  "plain_value (pid stale_entry)
   \<and> first_match (portfolio_row (pid stale_entry))
        (state (sequence (prologue template_parser \<lparr>error = None, totals = some_totals, portfolios = []\<rparr>
                          @ map (update_portfolio example_engine) [loss_entry]) page)) = None
   \<and> on_data template_parser example_engine
        \<lparr>error = None, totals = some_totals, portfolios = [loss_entry] @ stale_entry # [zero_entry]\<rparr> page
       = on_data template_parser example_engine
        \<lparr>error = None, totals = some_totals, portfolios = [loss_entry] @ [zero_entry]\<rparr> page"
proof -
  let ?data = "\<lparr>error = None, totals = some_totals, portfolios = []\<rparr>"
  let ?pre = "sequence (prologue template_parser ?data @ map (update_portfolio example_engine) [loss_entry]) page"
  have 1: "plain_value (pid stale_entry)"
    by code_simp
  have 2: "?pre = Done (state ?pre)"
    by code_simp
  have 3: "first_match (portfolio_row (pid stale_entry)) (state ?pre) = None"
    by code_simp
  from unmatched_entry_skipped[OF 1 2 3, of "[zero_entry]"] 1 3 show ?thesis
    by simp
qed

text \<open>
  C6 as stated covers every id without a matching row. For the id \<^verbatim>\<open>a"b\<close> the selector of
  line 26 is malformed and \<^verbatim>\<open>querySelector\<close> throws: the entry after it is not processed.
\<close>

theorem quoted_id_counterexample:
  "first_match (portfolio_row (pid quoted_entry)) page = None
   \<and> update_portfolio example_engine quoted_entry page = Thrown SyntaxError page
   \<and> on_data template_parser example_engine
        \<lparr>error = None, totals = some_totals, portfolios = [quoted_entry, loss_entry]\<rparr> page
       \<noteq> on_data template_parser example_engine
        \<lparr>error = None, totals = some_totals, portfolios = [loss_entry]\<rparr> page"
  by code_simp

subsection \<open>The click handler\<close>

text \<open>
  C2 fails on the code. On a page without \<^verbatim>\<open>main.container\<close>, when the request fails, the
  \<^verbatim>\<open>catch\<close> callback throws in \<^verbatim>\<open>showAlert\<close> (line 48) before lines 49 and 50 run: the button
  stays disabled, with the loading label. The same happens when the response carries an
  \<^verbatim>\<open>error\<close> field: \<^verbatim>\<open>showAlert\<close> throws at line 12, then again in the \<^verbatim>\<open>catch\<close> callback. On the
  page with the container the failed request ends with the button as it was.
\<close>

theorem failure_path_leaves_button_disabled:
  "first_match main_container page_without_container = None
   \<and> click template_parser example_engine Rejected page_without_container = Thrown TypeError
       [Element ''html'' [] False
         [Element ''body'' [] False
           (Element ''div'' [(''class'', ''d-flex'')] False
              [Element ''button''
                 [(''id'', ''refreshPrices''), (''data-url'', ''/refresh/''), (''disabled'', [])] True
                 loading_label]
            # cards)]]
   \<and> first_match (by_id ''refreshPrices'') (state (click template_parser example_engine Rejected page_without_container))
       = Some (Element ''button''
                [(''id'', ''refreshPrices''), (''data-url'', ''/refresh/''), (''disabled'', [])] True
                loading_label)
   \<and> first_match (by_id ''refreshPrices'')
        (state (click template_parser example_engine
                  (Resolved \<lparr>error = Some ''X'', totals = some_totals, portfolios = [loss_entry]\<rparr>)
                  page_without_container))
       = Some (Element ''button''
                [(''id'', ''refreshPrices''), (''data-url'', ''/refresh/''), (''disabled'', [])] True
                loading_label)
   \<and> first_match (by_id ''refreshPrices'') (state (click template_parser example_engine Rejected page))
       = Some refresh_button"
  by code_simp

subsection \<open>The chart tooltip\<close>



end
